theory Spec2Isabelle
  imports Main "HOL-Library.Sublist"
begin

section \<open>Python values, strings and exceptions\<close>

text \<open>
  The program is the \<open>Create\<close> command of lamblayer (\<open>src/lamblayer/create.py\<close>) with
  its exception classes (\<open>src/lamblayer/exceptions.py\<close>). Python strings are modelled as
  \<open>string\<close>; a value loaded by \<open>json.load\<close> is a \<open>pyval\<close>, with JSON \<open>null\<close> read as
  \<open>PNone\<close>. A JSON number with a fraction or an exponent is a Python float; only its
  literal is kept, since the program never computes with it.
\<close>

datatype pyval =
    PNone
  | PBool bool
  | PInt int
  | PFloat string
  | PStr string
  | PList "pyval list"
  | PDict "(string \<times> pyval) list"

text \<open>
  Exceptions are values. The first four are the classes of \<open>exceptions.py\<close>, each
  carrying its \<open>message\<close>; the others are the built-in exceptions the modelled library
  calls raise. \<open>shutil_Error\<close> is \<open>shutil.Error\<close>, \<open>RequestException\<close> any exception of
  the \<open>requests\<close> library, \<open>ClientError\<close> any exception of the cloud SDK.
  \<open>OutsideModel\<close> is not a Python exception: a library function of the model answers
  with it on the few inputs whose effect on the filesystem the model does not compute
  (each is named where it occurs). The statements about the archive that is produced
  exclude these inputs by their hypotheses.
\<close>

datatype error =
    LamblayerInvalidRegionError string
  | LamblayerInvalidOptionError string
  | LamblayerParamValidationError string
  | LamblayerCreateLayerError string
  | TypeError
  | ValueError
  | AttributeError
  | JSONDecodeError
  | FileNotFoundError
  | FileExistsError
  | NotADirectoryError
  | IsADirectoryError
  | PermissionError
  | shutil_Error
  | IndexError
  | RequestException
  | ClientError
  | OutsideModel

subsection \<open>exceptions.py\<close>

text \<open>
  \<open>LamblayerParamValidationError.__init__\<close> assigns to \<open>message\<close> the string literal of
  its first line only. The two f-strings on the following lines are not inside
  parentheses, so they are expression statements of their own: they are evaluated and
  dropped. The constructor therefore ignores all three of its arguments.
\<close>

datatype valid_type = T_str | T_int | T_str_or_list

definition new_LamblayerInvalidOptionError :: "string \<Rightarrow> error" where
  "new_LamblayerInvalidOptionError message = LamblayerInvalidOptionError message"

definition new_LamblayerCreateLayerError :: "string \<Rightarrow> error" where
  "new_LamblayerCreateLayerError message = LamblayerCreateLayerError message"

definition new_LamblayerParamValidationError :: "string \<Rightarrow> pyval \<Rightarrow> valid_type \<Rightarrow> error" where
  "new_LamblayerParamValidationError param_name param_value valid_types =
     LamblayerParamValidationError
       (''ParamValidationError: Parameter validation failed:'' @ [CHR 0x0A])"

subsection \<open>Built-ins on values\<close>

text \<open>
  The \<open>isinstance\<close> checks of the program, as views of a value: \<open>as_str v\<close> is
  defined exactly when \<open>isinstance(v, str)\<close> holds and \<open>as_int v\<close> exactly when
  \<open>isinstance(v, int)\<close> holds. \<open>bool\<close> is a subclass of \<open>int\<close>, so
  \<open>isinstance(True, int)\<close> holds; the view keeps which of the two the value is, since
  an f-string renders an \<open>int\<close> in decimal and a \<open>bool\<close> as \<open>True\<close> or \<open>False\<close>.
\<close>

datatype int_or_bool = IsInt int | IsBool bool

fun as_str :: "pyval \<Rightarrow> string option" where
  "as_str (PStr s) = Some s"
| "as_str v = None"

fun as_int :: "pyval \<Rightarrow> int_or_bool option" where
  "as_int (PInt i) = Some (IsInt i)"
| "as_int (PBool b) = Some (IsBool b)"
| "as_int v = None"

text \<open>
  \<open>d.get(key, default)\<close>: a dictionary gives the value stored under the key or the
  default; any other value loaded from JSON has no attribute \<open>get\<close>. The pairs of a
  \<open>PDict\<close> are those of the loaded dictionary, whose keys are distinct.
\<close>

fun py_get :: "pyval \<Rightarrow> string \<Rightarrow> pyval \<Rightarrow> error + pyval" where
  "py_get (PDict kvs) key dflt = Inr (case map_of kvs key of None \<Rightarrow> dflt | Some v \<Rightarrow> v)"
| "py_get v key dflt = Inl AttributeError"

text \<open>\<open>sep.join(xs)\<close> on a list: every item must be a \<open>str\<close>.\<close>

fun str_items :: "pyval list \<Rightarrow> string list option" where
  "str_items [] = Some []"
| "str_items (PStr s # vs) = map_option ((#) s) (str_items vs)"
| "str_items (v # vs) = None"

fun intercalate :: "string \<Rightarrow> string list \<Rightarrow> string" where
  "intercalate sep [] = []"
| "intercalate sep [x] = x"
| "intercalate sep (x # y # ys) = x @ sep @ intercalate sep (y # ys)"

definition py_join :: "string \<Rightarrow> pyval list \<Rightarrow> error + string" where
  "py_join sep vs = (case str_items vs of None \<Rightarrow> Inl TypeError | Some ss \<Rightarrow> Inr (intercalate sep ss))"

text \<open>\<open>str(n)\<close> for an integer, which is what an f-string field renders.\<close>

fun str_nat :: "nat \<Rightarrow> string" where
  "str_nat n = (if n < 10 then [char_of (48 + n)] else str_nat (n div 10) @ [char_of (48 + n mod 10)])"

declare str_nat.simps [simp del]

definition str_int :: "int \<Rightarrow> string" where
  "str_int i = (if i < 0 then CHR ''-'' # str_nat (nat (- i)) else str_nat (nat i))"

fun format_flag :: "int_or_bool \<Rightarrow> string" where
  "format_flag (IsInt i) = str_int i"
| "format_flag (IsBool b) = (if b then ''True'' else ''False'')"

subsection \<open>str.split\<close>

text \<open>
  \<open>partition_at sep s\<close> cuts \<open>s\<close> at the first occurrence of \<open>sep\<close>;
  \<open>py_split sep maxsplit s\<close> is \<open>s.split(sep, maxsplit)\<close> for a non-empty separator
  (\<open>None\<close> is Python's default of no limit). The program only splits at the literals
  \<open>"."\<close>, \<open>"//"\<close> and \<open>"/"\<close>.
\<close>

fun partition_at :: "string \<Rightarrow> string \<Rightarrow> (string \<times> string) option" where
  "partition_at sep [] = None"
| "partition_at sep (c # cs) =
     (if prefix sep (c # cs) then Some ([], drop (length sep) (c # cs))
      else map_option (\<lambda>(a, b). (c # a, b)) (partition_at sep cs))"

lemma partition_at_length:
  "partition_at sep s = Some (a, b) \<Longrightarrow> length a + length sep + length b = length s"
proof (induction s arbitrary: a)
  case Nil
  then show ?case by simp
next
  case (Cons c cs)
  show ?case
  proof (cases "prefix sep (c # cs)")
    case True
    then obtain zs where zs: "c # cs = sep @ zs"
      by (auto simp: prefix_def)
    from True Cons.prems have "a = []" "b = drop (length sep) (c # cs)"
      by auto
    with zs have "b = zs" "a = []"
      by auto
    with zs show ?thesis
      by (metis add_0 length_append list.size(3))
  next
    case False
    with Cons.prems obtain a' where "partition_at sep cs = Some (a', b)" "a = c # a'"
      by auto
    with Cons.IH [of a'] show ?thesis by simp
  qed
qed

lemma partition_at_shorter:
  "partition_at sep s = Some (a, b) \<Longrightarrow> sep \<noteq> [] \<Longrightarrow> length b < length s"
  using partition_at_length [of sep s a b] by (cases sep) auto

function py_split :: "string \<Rightarrow> nat option \<Rightarrow> string \<Rightarrow> string list" where
  "py_split sep maxsplit s =
     (if sep = [] \<or> maxsplit = Some 0 then [s]
      else case partition_at sep s of
             None \<Rightarrow> [s]
           | Some (a, b) \<Rightarrow> a # py_split sep (map_option (\<lambda>n. n - 1) maxsplit) b)"
  by pat_completeness auto
termination
  by (relation "measure (\<lambda>(sep, maxsplit, s). length s)")
     (auto dest: partition_at_shorter)

declare py_split.simps [simp del]

section \<open>The filesystem\<close>

text \<open>
  The archiver works through \<open>os.path\<close>, \<open>shutil\<close> and \<open>open\<close>. The filesystem is a
  list of entries, each an absolute path (its components, the root being \<open>[]\<close>) with the
  node found there. A file holds a \<open>blob\<close>: a JSON document (what \<open>json.load\<close> returns
  for it), a zip archive (its entries, named relative to the archive root), or other
  bytes. \<open>Unreadable\<close> is a file the process has no permission to open. There are no
  symbolic links.
\<close>

type_synonym path = "string list"

datatype blob = Raw string | JsonDoc pyval | ZipData "(string list \<times> node) list"
  and node = File blob | Unreadable | Dir

type_synonym filesystem = "(path \<times> node) list"

definition node_at :: "filesystem \<Rightarrow> path \<Rightarrow> node option" where
  "node_at fs p = map_of fs p"

text \<open>The entries strictly below a directory, named relative to it.\<close>

definition entries_under :: "filesystem \<Rightarrow> path \<Rightarrow> (path \<times> node) list" where
  "entries_under fs d =
     map (\<lambda>(p, n). (drop (length d) p, n)) (filter (\<lambda>(p, n). strict_prefix d p) fs)"

definition remove_tree :: "filesystem \<Rightarrow> path \<Rightarrow> filesystem" where
  "remove_tree fs d = filter (\<lambda>(p, n). \<not> prefix d p) fs"

definition write_node :: "filesystem \<Rightarrow> path \<Rightarrow> node \<Rightarrow> filesystem" where
  "write_node fs p n = filter (\<lambda>(q, m). q \<noteq> p) fs @ [(p, n)]"

subsection \<open>os.path\<close>

text \<open>
  \<open>join2\<close> is one step of \<open>posixpath.join\<close>: a component that starts with \<open>/\<close> replaces
  what was joined before it, and an empty component only adds a trailing separator.
\<close>

definition join2 :: "string \<Rightarrow> string \<Rightarrow> string" where
  "join2 p b =
     (if b \<noteq> [] \<and> hd b = CHR ''/'' then b
      else if p = [] \<or> last p = CHR ''/'' then p @ b
      else p @ ''/'' @ b)"

definition os_path_join :: "string \<Rightarrow> string list \<Rightarrow> string" where
  "os_path_join a ps = foldl join2 a ps"

text \<open>\<open>posixpath.split\<close> and \<open>os.path.dirname\<close>, its first component.\<close>

definition rstrip_sep :: "string \<Rightarrow> string" where
  "rstrip_sep s = rev (dropWhile (\<lambda>c. c = CHR ''/'') (rev s))"

definition os_path_split :: "string \<Rightarrow> string \<times> string" where
  "os_path_split p =
     (let head = rev (dropWhile (\<lambda>c. c \<noteq> CHR ''/'') (rev p));
          tail = rev (takeWhile (\<lambda>c. c \<noteq> CHR ''/'') (rev p))
      in (if head \<noteq> [] \<and> head \<noteq> replicate (length head) (CHR ''/'') then rstrip_sep head else head,
          tail))"

definition os_path_dirname :: "string \<Rightarrow> string" where
  "os_path_dirname p = fst (os_path_split p)"

subsection \<open>Path resolution\<close>

text \<open>
  The components of a path string are the pieces between its separators. The kernel
  resolves them one at a time from the root (absolute path) or the working directory:
  the directory reached so far must exist and be a directory; an empty component and
  \<open>.\<close> stay there, \<open>..\<close> goes to the parent, a name goes down. The last component
  need not exist.
\<close>

fun components :: "string \<Rightarrow> string list" where
  "components [] = [[]]"
| "components (c # cs) =
     (if c = CHR ''/'' then [] # components cs
      else case components cs of [] \<Rightarrow> [[c]] | x # xs \<Rightarrow> (c # x) # xs)"

fun walk :: "filesystem \<Rightarrow> path \<Rightarrow> string list \<Rightarrow> error + path" where
  "walk fs cur [] = Inr cur"
| "walk fs cur (c # cs) =
     (case node_at fs cur of
        None \<Rightarrow> Inl FileNotFoundError
      | Some Dir \<Rightarrow>
          walk fs (if c = [] \<or> c = ''.'' then cur
                   else if c = ''..'' then butlast cur
                   else cur @ [c]) cs
      | Some other \<Rightarrow> Inl NotADirectoryError)"

definition start_dir :: "path \<Rightarrow> string \<Rightarrow> path" where
  "start_dir cwd s = (if s \<noteq> [] \<and> hd s = CHR ''/'' then [] else cwd)"

definition resolve :: "filesystem \<Rightarrow> path \<Rightarrow> string \<Rightarrow> error + path" where
  "resolve fs cwd s =
     (if s = [] then Inl FileNotFoundError else walk fs (start_dir cwd s) (components s))"

text \<open>\<open>os.stat\<close>: the resolved path and the node there.\<close>

definition lookup :: "filesystem \<Rightarrow> path \<Rightarrow> string \<Rightarrow> error + path \<times> node" where
  "lookup fs cwd s =
     (case resolve fs cwd s of
        Inl e \<Rightarrow> Inl e
      | Inr p \<Rightarrow> (case node_at fs p of None \<Rightarrow> Inl FileNotFoundError | Some n \<Rightarrow> Inr (p, n)))"

definition os_path_exists :: "filesystem \<Rightarrow> path \<Rightarrow> string \<Rightarrow> bool" where
  "os_path_exists fs cwd s = (case lookup fs cwd s of Inl e \<Rightarrow> False | Inr pn \<Rightarrow> True)"

subsection \<open>os.makedirs, shutil.copytree, shutil.make_archive, open, shutil.rmtree\<close>

text \<open>
  \<open>os.makedirs(name)\<close> with \<open>exist_ok=False\<close> creates every missing directory on the
  way and then the last one, which must not exist yet. On a tree nothing is created
  before a failure: below a directory that was just created nothing exists. The model
  covers path strings without \<open>.\<close> and \<open>..\<close> components.
\<close>

fun mkdirs :: "filesystem \<Rightarrow> path \<Rightarrow> string list \<Rightarrow> error + filesystem \<times> path" where
  "mkdirs fs cur [] = Inr (fs, cur)"
| "mkdirs fs cur (c # cs) =
     (case node_at fs cur of
        None \<Rightarrow> Inl FileNotFoundError
      | Some Dir \<Rightarrow>
          (case node_at fs (cur @ [c]) of
             None \<Rightarrow> mkdirs (fs @ [(cur @ [c], Dir)]) (cur @ [c]) cs
           | Some n \<Rightarrow> if cs = [] then Inl FileExistsError else mkdirs fs (cur @ [c]) cs)
      | Some other \<Rightarrow> Inl NotADirectoryError)"

definition os_makedirs :: "filesystem \<Rightarrow> path \<Rightarrow> string \<Rightarrow> error + filesystem \<times> path" where
  "os_makedirs fs cwd name =
     (if name = [] then Inl FileNotFoundError
      else let cs = filter (\<lambda>c. c \<noteq> []) (components name)
           in if ''.'' \<in> set cs \<or> ''..'' \<in> set cs then Inl OutsideModel
              else if cs = [] then Inl FileExistsError
              else mkdirs fs (start_dir cwd name) cs)"

text \<open>
  \<open>shutil.copytree(src, dst)\<close> lists \<open>src\<close>, creates \<open>dst\<close> with \<open>os.makedirs\<close>, then
  copies entry by entry. A file that cannot be opened is skipped and remembered; the
  other entries are still copied and \<open>shutil.Error\<close> is raised at the end. When
  \<open>dst\<close> lies inside \<open>src\<close> below a directory that existed before, the copy descends
  into its own output until the operating system stops it: that run is outside the
  model.
\<close>

definition shutil_copytree ::
  "filesystem \<Rightarrow> path \<Rightarrow> string \<Rightarrow> string \<Rightarrow> error option \<times> filesystem" where
  "shutil_copytree fs cwd src dst =
     (case lookup fs cwd src of
        Inl e \<Rightarrow> (Some e, fs)
      | Inr (sp, n) \<Rightarrow>
          if n \<noteq> Dir then (Some NotADirectoryError, fs)
          else case os_makedirs fs cwd dst of
                 Inl e \<Rightarrow> (Some e, fs)
               | Inr (fs1, dp) \<Rightarrow>
                   if prefix sp dp \<and> node_at fs (take (Suc (length sp)) dp) \<noteq> None
                   then (Some OutsideModel, fs1)
                   else let found = entries_under fs sp;
                            fs2 = fs1 @ map (\<lambda>(q, m). (dp @ q, m))
                                         (filter (\<lambda>(q, m). m \<noteq> Unreadable) found)
                        in if list_ex (\<lambda>(q, m). m = Unreadable) found
                           then (Some shutil_Error, fs2)
                           else (None, fs2))"

text \<open>
  \<open>shutil.make_archive(base_name, "zip", root_dir=root_dir)\<close>: \<open>root_dir\<close> must be a
  directory; the directory of \<open>base_name\<close> is created if it is missing; the file
  \<open>base_name + ".zip"\<close> is opened for writing and receives one entry for every
  directory and file below \<open>root_dir\<close>, named relative to it (the root itself gets no
  entry). An archive placed below its own root, and a file below the root that cannot
  be read (which leaves a truncated archive), are outside the model.
\<close>

definition shutil_make_archive ::
  "filesystem \<Rightarrow> path \<Rightarrow> string \<Rightarrow> string \<Rightarrow> error option \<times> filesystem" where
  "shutil_make_archive fs cwd base_name root_dir =
     (case lookup fs cwd root_dir of
        Inl e \<Rightarrow> (Some e, fs)
      | Inr (rp, n) \<Rightarrow>
          if n \<noteq> Dir then (Some NotADirectoryError, fs)
          else let archive_dir = os_path_dirname base_name
               in case (if archive_dir \<noteq> [] \<and> \<not> os_path_exists fs cwd archive_dir
                        then map_sum id fst (os_makedirs fs cwd archive_dir)
                        else Inr fs) of
                    Inl e \<Rightarrow> (Some e, fs)
                  | Inr fs1 \<Rightarrow>
                      (case resolve fs1 cwd (base_name @ ''.zip'') of
                         Inl e \<Rightarrow> (Some e, fs1)
                       | Inr zp \<Rightarrow>
                           (case node_at fs1 zp of
                              Some Dir \<Rightarrow> (Some IsADirectoryError, fs1)
                            | Some Unreadable \<Rightarrow> (Some PermissionError, fs1)
                            | other \<Rightarrow>
                                if prefix rp zp \<or> list_ex (\<lambda>(q, m). m = Unreadable) (entries_under fs1 rp)
                                then (Some OutsideModel, fs1)
                                else (None, write_node fs1 zp (File (ZipData (entries_under fs1 rp)))))))"

text \<open>\<open>open(name, "rb").read()\<close> and \<open>open(name, "r")\<close> followed by a read.\<close>

definition read_file :: "filesystem \<Rightarrow> path \<Rightarrow> string \<Rightarrow> error + blob" where
  "read_file fs cwd name =
     (case lookup fs cwd name of
        Inl e \<Rightarrow> Inl e
      | Inr (p, File b) \<Rightarrow> Inr b
      | Inr (p, Unreadable) \<Rightarrow> Inl PermissionError
      | Inr (p, Dir) \<Rightarrow> Inl IsADirectoryError)"

text \<open>\<open>shutil.rmtree(name)\<close> removes a directory with everything below it.\<close>

definition shutil_rmtree :: "filesystem \<Rightarrow> path \<Rightarrow> string \<Rightarrow> error + filesystem" where
  "shutil_rmtree fs cwd name =
     (case lookup fs cwd name of
        Inl e \<Rightarrow> Inl e
      | Inr (p, n) \<Rightarrow> if n \<noteq> Dir then Inl NotADirectoryError else Inr (remove_tree fs p))"

section \<open>The world the command runs in\<close>

text \<open>
  An HTTP response as the program reads it: \<open>status_code\<close>, \<open>text\<close> (here
  \<open>body_text\<close>) and \<open>headers.get\<close>, the lookup of a header by name.
\<close>

record response =
  status_code :: int
  body_text :: string
  headers_get :: "string \<Rightarrow> string option"

datatype layer_content = ZipFile blob | S3Object string string

record publish_request =
  LayerName :: pyval
  Description :: pyval
  Content :: layer_content
  CompatibleRuntimes :: pyval
  LicenseInfo :: pyval

text \<open>What the command does to its surroundings, in order.\<close>

datatype event =
    FsOpen string
  | FsCopyTree string string
  | FsMakeArchive string string
  | FsRmTree string
  | HttpGet string
  | Sleep nat
  | LogInfo string
  | Publish publish_request

text \<open>
  The world holds the filesystem and the working directory; \<open>timestamp_hash\<close>, the
  MD5 hex digest of \<open>str(time.time())\<close> that names the scratch directory; the network,
  which answers the \<open>n\<close>-th request of the run, sent to a URL, with a response, or
  with \<open>None\<close> when \<open>requests.get\<close> raises; the layer service, which answers a
  publish request with the \<open>LayerVersionArn\<close> of its response, or with \<open>None\<close> when the
  SDK raises; and the trace of events so far.
\<close>

record world =
  filesys :: filesystem
  workdir :: path
  timestamp_hash :: string
  network :: "nat \<Rightarrow> string \<Rightarrow> response option"
  requests_sent :: nat
  layer_service :: "publish_request \<Rightarrow> string option"
  trace :: "event list"

definition emit :: "event \<Rightarrow> world \<Rightarrow> world" where
  "emit e w = w\<lparr>trace := trace w @ [e]\<rparr>"

definition open_read :: "world \<Rightarrow> string \<Rightarrow> (error + blob) \<times> world" where
  "open_read w name = (read_file (filesys w) (workdir w) name, emit (FsOpen name) w)"

definition copytree :: "world \<Rightarrow> string \<Rightarrow> string \<Rightarrow> error option \<times> world" where
  "copytree w src dst =
     (case shutil_copytree (filesys w) (workdir w) src dst of
        (r, fs') \<Rightarrow> (r, emit (FsCopyTree src dst) (w\<lparr>filesys := fs'\<rparr>)))"

definition make_archive :: "world \<Rightarrow> string \<Rightarrow> string \<Rightarrow> error option \<times> world" where
  "make_archive w base_name root_dir =
     (case shutil_make_archive (filesys w) (workdir w) base_name root_dir of
        (r, fs') \<Rightarrow> (r, emit (FsMakeArchive base_name root_dir) (w\<lparr>filesys := fs'\<rparr>)))"

definition rmtree :: "world \<Rightarrow> string \<Rightarrow> error option \<times> world" where
  "rmtree w name =
     (case shutil_rmtree (filesys w) (workdir w) name of
        Inl e \<Rightarrow> (Some e, emit (FsRmTree name) w)
      | Inr fs' \<Rightarrow> (None, emit (FsRmTree name) (w\<lparr>filesys := fs'\<rparr>)))"

definition requests_get :: "world \<Rightarrow> string \<Rightarrow> (error + response) \<times> world" where
  "requests_get w url =
     (case network w (requests_sent w) url of
        None \<Rightarrow> Inl RequestException
      | Some response \<Rightarrow> Inr response,
      emit (HttpGet url) (w\<lparr>requests_sent := Suc (requests_sent w)\<rparr>))"

definition time_sleep :: "world \<Rightarrow> nat \<Rightarrow> world" where
  "time_sleep w seconds = emit (Sleep seconds) w"

definition logger_info :: "world \<Rightarrow> string \<Rightarrow> world" where
  "logger_info w msg = emit (LogInfo msg) w"

definition publish_layer_version :: "world \<Rightarrow> publish_request \<Rightarrow> (error + string) \<times> world" where
  "publish_layer_version w req =
     (case layer_service w req of
        None \<Rightarrow> Inl ClientError
      | Some layer_version_arn \<Rightarrow> Inr layer_version_arn,
      emit (Publish req) w)"

text \<open>
  \<open>json.load\<close> of an opened file: the document the file holds, or \<open>JSONDecodeError\<close>
  for a file that holds none.
\<close>

definition json_load :: "world \<Rightarrow> string \<Rightarrow> (error + pyval) \<times> world" where
  "json_load w name =
     (case open_read w name of
        (Inl e, w') \<Rightarrow> (Inl e, w')
      | (Inr (JsonDoc v), w') \<Rightarrow> (Inr v, w')
      | (Inr other, w') \<Rightarrow> (Inl JSONDecodeError, w'))"

subsection \<open>int() of a header value\<close>

text \<open>
  \<open>int(x)\<close> raises \<open>TypeError\<close> for \<open>None\<close>. For a string it skips white space on
  both sides, reads an optional sign and then decimal digits, which single underscores
  may separate; anything else raises \<open>ValueError\<close>. A header value is a string of
  Latin-1 characters, among which the white space is the six ASCII characters and the
  code points 133 and 160. The interpreter's configurable limit on the number of
  digits is not modelled.
\<close>

definition py_isspace :: "char \<Rightarrow> bool" where
  "py_isspace c = ((of_char c :: nat) \<in> {9, 10, 11, 12, 13, 32, 133, 160})"

definition py_isdigit :: "char \<Rightarrow> bool" where
  "py_isdigit c = (48 \<le> (of_char c :: nat) \<and> (of_char c :: nat) \<le> 57)"

definition digit_value :: "char \<Rightarrow> nat" where
  "digit_value c = of_char c - 48"

fun digits_value :: "string \<Rightarrow> nat \<Rightarrow> nat option" where
  "digits_value [] acc = Some acc"
| "digits_value [c] acc = (if py_isdigit c then Some (10 * acc + digit_value c) else None)"
| "digits_value (c # d # ds) acc =
     (if py_isdigit c then digits_value (d # ds) (10 * acc + digit_value c)
      else if c = CHR ''_'' \<and> py_isdigit d then digits_value ds (10 * acc + digit_value d)
      else None)"

definition parse_digits :: "string \<Rightarrow> nat option" where
  "parse_digits s =
     (case s of [] \<Rightarrow> None
      | c # cs \<Rightarrow> if py_isdigit c then digits_value cs (digit_value c) else None)"

definition py_strip :: "string \<Rightarrow> string" where
  "py_strip s = rev (dropWhile py_isspace (rev (dropWhile py_isspace s)))"

definition int_of_str :: "string \<Rightarrow> error + int" where
  "int_of_str s =
     (let t = py_strip s;
          negative = (t \<noteq> [] \<and> hd t = CHR ''-'');
          body = (if t \<noteq> [] \<and> (hd t = CHR ''-'' \<or> hd t = CHR ''+'') then tl t else t)
      in case parse_digits body of
           None \<Rightarrow> Inl ValueError
         | Some n \<Rightarrow> Inr (if negative then - int n else int n))"

fun py_int :: "string option \<Rightarrow> error + int" where
  "py_int None = Inl TypeError"
| "py_int (Some s) = int_of_str s"

subsection \<open>Indexing a list\<close>

fun item_first :: "'a list \<Rightarrow> error + 'a" where
  "item_first [] = Inl IndexError"
| "item_first (x # xs) = Inr x"

fun item_last :: "'a list \<Rightarrow> error + 'a" where
  "item_last [] = Inl IndexError"
| "item_last [x] = Inr x"
| "item_last (x # y # ys) = item_last (y # ys)"

section \<open>create.py\<close>

subsection \<open>The configuration files\<close>

text \<open>
  \<open>_parse_create_layer_json(layer_path)\<close> loads the file and returns what
  \<open>dict.get\<close> finds under the four keys, \<open>None\<close> for a key that is absent.
\<close>

definition parse_create_layer_json ::
  "world \<Rightarrow> string \<Rightarrow> (error + pyval \<times> pyval \<times> pyval \<times> pyval) \<times> world" where
  "parse_create_layer_json w layer_path =
     (case json_load w layer_path of
        (Inl e, w') \<Rightarrow> (Inl e, w')
      | (Inr layer_param, w') \<Rightarrow>
          (case py_get layer_param ''LayerName'' PNone of Inl e \<Rightarrow> (Inl e, w')
           | Inr layer_name \<Rightarrow>
          (case py_get layer_param ''Description'' PNone of Inl e \<Rightarrow> (Inl e, w')
           | Inr description \<Rightarrow>
          (case py_get layer_param ''CompatibleRuntimes'' PNone of Inl e \<Rightarrow> (Inl e, w')
           | Inr compatible_runtimes \<Rightarrow>
          (case py_get layer_param ''LicenseInfo'' PNone of Inl e \<Rightarrow> (Inl e, w')
           | Inr license_info \<Rightarrow>
              (Inr (layer_name, description, compatible_runtimes, license_info), w'))))))"

text \<open>
  \<open>_parse_packages_json(packages_path)\<close>, after the file is loaded: the four
  \<open>get\<close>s, the four \<open>isinstance\<close> checks in the order of the source, then the join
  of a list. The result is \<open>(arch, runtime, packages, no_deps)\<close>.
\<close>

definition check_packages_config ::
  "pyval \<Rightarrow> error + string \<times> string \<times> string \<times> int_or_bool" where
  "check_packages_config packages_config =
     (case py_get packages_config ''Arch'' PNone of Inl e \<Rightarrow> Inl e
      | Inr arch \<Rightarrow>
     (case py_get packages_config ''Runtime'' PNone of Inl e \<Rightarrow> Inl e
      | Inr runtime \<Rightarrow>
     (case py_get packages_config ''Packages'' PNone of Inl e \<Rightarrow> Inl e
      | Inr packages \<Rightarrow>
     (case py_get packages_config ''No_deps'' (PInt 0) of Inl e \<Rightarrow> Inl e
      | Inr no_deps \<Rightarrow>
     (case as_str arch of
        None \<Rightarrow> Inl (new_LamblayerParamValidationError ''Arch'' arch T_str)
      | Some arch_s \<Rightarrow>
     (case as_str runtime of
        None \<Rightarrow> Inl (new_LamblayerParamValidationError ''Runtime'' runtime T_str)
      | Some runtime_s \<Rightarrow>
     (case packages of
        PStr packages_s \<Rightarrow>
          (case as_int no_deps of
             None \<Rightarrow> Inl (new_LamblayerParamValidationError ''No_deps'' no_deps T_int)
           | Some flag \<Rightarrow> Inr (arch_s, runtime_s, packages_s, flag))
      | PList items \<Rightarrow>
          (case as_int no_deps of
             None \<Rightarrow> Inl (new_LamblayerParamValidationError ''No_deps'' no_deps T_int)
           | Some flag \<Rightarrow>
               (case py_join ''&'' items of
                  Inl e \<Rightarrow> Inl e
                | Inr packages_s \<Rightarrow> Inr (arch_s, runtime_s, packages_s, flag)))
      | other \<Rightarrow>
          Inl (new_LamblayerParamValidationError ''Packages'' packages T_str_or_list))))))))"

definition parse_packages_json ::
  "world \<Rightarrow> string \<Rightarrow> (error + string \<times> string \<times> string \<times> int_or_bool) \<times> world" where
  "parse_packages_json w packages_path =
     (case json_load w packages_path of
        (Inl e, w') \<Rightarrow> (Inl e, w')
      | (Inr packages_config, w') \<Rightarrow> (check_packages_config packages_config, w'))"

subsection \<open>The archiver\<close>

text \<open>
  \<open>_create_ziparchive(src, wrap_dir1, wrap_dir2)\<close>. Each library call that raises
  ends the function there: the source has no \<open>try\<close>, so the statements after the
  call, \<open>shutil.rmtree(temp_dir)\<close> among them, do not run.
\<close>

definition create_ziparchive ::
  "world \<Rightarrow> string \<Rightarrow> string \<Rightarrow> string \<Rightarrow> (error + blob) \<times> world" where
  "create_ziparchive w src wrap_dir1 wrap_dir2 =
     (let temp_dir = timestamp_hash w;
          temp_layer_dir = os_path_join temp_dir [''rawlayer''];
          copy_src_dir = os_path_join temp_dir [''rawlayer'', wrap_dir1, wrap_dir2]
      in case copytree w src copy_src_dir of
           (Some e, w1) \<Rightarrow> (Inl e, w1)
         | (None, w1) \<Rightarrow>
             let base_name = os_path_join temp_dir [''ziplayer'']
             in case make_archive w1 base_name temp_layer_dir of
                  (Some e, w2) \<Rightarrow> (Inl e, w2)
                | (None, w2) \<Rightarrow>
                    let output_path = base_name @ ''.zip''
                    in case open_read w2 output_path of
                         (Inl e, w3) \<Rightarrow> (Inl e, w3)
                       | (Inr zipfile, w3) \<Rightarrow>
                           (case rmtree w3 temp_dir of
                              (Some e, w4) \<Rightarrow> (Inl e, w4)
                            | (None, w4) \<Rightarrow> (Inr zipfile, w4)))"

subsection \<open>The remote build\<close>

definition request_url :: "string \<Rightarrow> string \<Rightarrow> string \<Rightarrow> int_or_bool \<Rightarrow> string" where
  "request_url arch runtime packages no_deps =
     ''https://layerzip.higuchi.work/'' @ arch @ ''/'' @ runtime @ ''/'' @ packages
       @ ''?no-deps='' @ format_flag no_deps"

text \<open>
  The \<open>while not is_download_completed\<close> loop, entered with \<open>elapsed_time\<close>. It
  returns the response with status 200 that ends it, or the exception of a request.
  The loop has no bound, so the function is partial: \<open>None\<close> is the run that never
  leaves the loop.
\<close>

definition still_downloading :: "nat \<Rightarrow> string" where
  "still_downloading elapsed_time =
     ''still downloading packages... '' @ str_nat elapsed_time @ ''s elapsed''"

partial_function (option) wait_for_download ::
  "world \<Rightarrow> string \<Rightarrow> nat \<Rightarrow> ((error + response) \<times> world) option" where
  "wait_for_download w pre_signedurl elapsed_time =
     (case requests_get w pre_signedurl of
        (Inl e, w1) \<Rightarrow> Some (Inl e, w1)
      | (Inr response, w1) \<Rightarrow>
          if status_code response = 200 then Some (Inr response, w1)
          else wait_for_download
                 (logger_info (time_sleep w1 5) (still_downloading (elapsed_time + 5)))
                 pre_signedurl (elapsed_time + 5))"

text \<open>
  \<open>s3_bucket = pre_signedurl.split(".")[0].split("//")[-1]\<close> and
  \<open>s3_key = pre_signedurl.split("/", 3)[-1]\<close>.
\<close>

definition s3_bucket_of :: "string \<Rightarrow> error + string" where
  "s3_bucket_of pre_signedurl =
     (case item_first (py_split ''.'' None pre_signedurl) of
        Inl e \<Rightarrow> Inl e
      | Inr host \<Rightarrow> item_last (py_split ''//'' None host))"

definition s3_key_of :: "string \<Rightarrow> error + string" where
  "s3_key_of pre_signedurl = item_last (py_split ''/'' (Some 3) pre_signedurl)"

text \<open>The body of \<open>if packages:\<close> in \<open>create\<close>.\<close>

definition create_from_packages ::
  "world \<Rightarrow> string \<Rightarrow> pyval \<Rightarrow> pyval \<Rightarrow> pyval \<Rightarrow> pyval \<Rightarrow> ((error + unit) \<times> world) option" where
  "create_from_packages w packages layer_name description compatible_runtimes license_info =
     (case parse_packages_json w packages of
        (Inl e, w1) \<Rightarrow> Some (Inl e, w1)
      | (Inr (arch, runtime, packages_s, no_deps), w1) \<Rightarrow>
          (case requests_get w1 (request_url arch runtime packages_s no_deps) of
             (Inl e, w2) \<Rightarrow> Some (Inl e, w2)
           | (Inr response, w2) \<Rightarrow>
               if 200 \<le> status_code response \<and> status_code response < 300 then
                 let pre_signedurl = body_text response
                 in case wait_for_download w2 pre_signedurl 0 of
                      None \<Rightarrow> None
                    | Some (Inl e, w3) \<Rightarrow> Some (Inl e, w3)
                    | Some (Inr response, w3) \<Rightarrow>
                        let content_length = headers_get response ''Content-Length''
                        in case py_int content_length of
                             Inl e \<Rightarrow> Some (Inl e, w3)
                           | Inr n \<Rightarrow>
                               if n < 200 then
                                 Some (Inl (new_LamblayerCreateLayerError
                                   ''Something went wrong..., Please check the pakcage name and version again.''), w3)
                               else
                                 (case s3_bucket_of pre_signedurl of
                                    Inl e \<Rightarrow> Some (Inl e, w3)
                                  | Inr s3_bucket \<Rightarrow>
                                 (case s3_key_of pre_signedurl of
                                    Inl e \<Rightarrow> Some (Inl e, w3)
                                  | Inr s3_key \<Rightarrow>
                                 (case publish_layer_version w3
                                         \<lparr>LayerName = layer_name,
                                          Description = description,
                                          Content = S3Object s3_bucket s3_key,
                                          CompatibleRuntimes = compatible_runtimes,
                                          LicenseInfo = license_info\<rparr> of
                                    (Inl e, w4) \<Rightarrow> Some (Inl e, w4)
                                  | (Inr layer_version_arn, w4) \<Rightarrow> Some (Inr (), w4))))
               else
                 Some (Inl (new_LamblayerCreateLayerError
                   ''Something went wrong..., Please contact with higuchi@adansons.co.jp''), w2)))"

text \<open>The body of \<open>if src:\<close> in \<open>create\<close>.\<close>

definition create_from_src ::
  "world \<Rightarrow> string \<Rightarrow> string \<Rightarrow> string \<Rightarrow> pyval \<Rightarrow> pyval \<Rightarrow> pyval \<Rightarrow> pyval \<Rightarrow> (error + unit) \<times> world" where
  "create_from_src w src wrap_dir1 wrap_dir2 layer_name description compatible_runtimes license_info =
     (case create_ziparchive w src wrap_dir1 wrap_dir2 of
        (Inl e, w1) \<Rightarrow> (Inl e, w1)
      | (Inr zipfile, w1) \<Rightarrow>
          (case publish_layer_version w1
                  \<lparr>LayerName = layer_name,
                   Description = description,
                   Content = ZipFile zipfile,
                   CompatibleRuntimes = compatible_runtimes,
                   LicenseInfo = license_info\<rparr> of
             (Inl e, w2) \<Rightarrow> (Inl e, w2)
           | (Inr layer_version_arn, w2) \<Rightarrow> (Inr (), w2)))"

subsection \<open>create\<close>

text \<open>
  \<open>packages\<close> and \<open>src\<close> are a path or \<open>None\<close>; Python takes \<open>None\<close> and the empty
  string as false. The \<open>logger\<close> calls other than the progress line of the polling
  loop are left out: they change nothing the program reads.
\<close>

fun truthy :: "string option \<Rightarrow> bool" where
  "truthy None = False"
| "truthy (Some s) = (s \<noteq> [])"

fun path_of :: "string option \<Rightarrow> string" where
  "path_of None = []"
| "path_of (Some s) = s"

definition create ::
  "world \<Rightarrow> string option \<Rightarrow> string option \<Rightarrow> string \<Rightarrow> string \<Rightarrow> string
     \<Rightarrow> ((error + unit) \<times> world) option" where
  "create w packages src wrap_dir1 wrap_dir2 layer_path =
     (if truthy packages \<and> truthy src then
        Some (Inl (new_LamblayerInvalidOptionError
          ''`--packages` and `--src` cannot be specified at the same time.''), w)
      else if \<not> truthy packages \<and> \<not> truthy src then
        Some (Inl (new_LamblayerInvalidOptionError
          ''either `--packages` or `--src` must be specified.''), w)
      else
        case parse_create_layer_json w layer_path of
          (Inl e, w1) \<Rightarrow> Some (Inl e, w1)
        | (Inr (layer_name, description, compatible_runtimes, license_info), w1) \<Rightarrow>
            (case (if truthy src
                   then create_from_src w1 (path_of src) wrap_dir1 wrap_dir2
                          layer_name description compatible_runtimes license_info
                   else (Inr (), w1)) of
               (Inl e, w2) \<Rightarrow> Some (Inl e, w2)
             | (Inr u, w2) \<Rightarrow>
                 if truthy packages
                 then create_from_packages w2 (path_of packages)
                        layer_name description compatible_runtimes license_info
                 else Some (Inr (), w2)))"

section \<open>Example inputs\<close>

text \<open>
  A small filesystem: the working directory \<open>/work\<close> with a complete layer
  configuration, one that has only a description, a packages configuration, one
  without \<open>Arch\<close>, and a source tree.
\<close>

definition demo_fs :: filesystem where
  "demo_fs =
     [([], Dir),
      ([''work''], Dir),
      ([''work'', ''layer.json''], File (JsonDoc (PDict
         [(''LayerName'', PStr ''demo''), (''CompatibleRuntimes'', PList [PStr ''python3.8'']),
          (''Description'', PStr ''a layer'')]))),
      ([''work'', ''bare.json''], File (JsonDoc (PDict [(''Description'', PStr ''a layer'')]))),
      ([''work'', ''packages.json''], File (JsonDoc (PDict
         [(''Arch'', PStr ''x86_64''), (''Runtime'', PStr ''py38''),
          (''Packages'', PList [PStr ''a'', PStr ''b'', PStr ''c''])]))),
      ([''work'', ''no_arch.json''], File (JsonDoc (PDict
         [(''Runtime'', PStr ''py38''), (''Packages'', PStr ''numpy'')]))),
      ([''work'', ''src''], Dir),
      ([''work'', ''src'', ''a.py''], File (Raw ''print'')),
      ([''work'', ''src'', ''pkg''], Dir),
      ([''work'', ''src'', ''pkg'', ''b.py''], File (Raw ''x''))]"

text \<open>A world with that filesystem, a network that is down and a layer service that accepts.\<close>

definition demo_world :: world where
  "demo_world =
     \<lparr>filesys = demo_fs, workdir = [''work''],
      timestamp_hash = ''0cc175b9c0f1b6a831c399e269772661'',
      network = (\<lambda>n url. None), requests_sent = 0,
      layer_service = (\<lambda>req. Some ''arn:aws:lambda:layer:demo:1''), trace = []\<rparr>"

subsection \<open>Describing a run of the polling loop\<close>

text \<open>
  The vocabulary of the statements about the loop. \<open>still_building w url k\<close>: the
  next \<open>k\<close> requests to \<open>url\<close> are answered, each with a status other than 200.
  \<open>poll_outcome w url k res\<close>: the request after them is answered with status 200
  (\<open>res\<close> is that response) or raises (\<open>res\<close> is the exception).
  \<open>retry_world w url elapsed\<close>: the world after one request and the \<open>else\<close> branch
  of the loop body. \<open>poll_events url elapsed k\<close>: the events of \<open>k\<close> rounds through
  that branch. \<open>polled w url elapsed k\<close>: the world after those rounds and one more
  request.
\<close>

definition still_building :: "world \<Rightarrow> string \<Rightarrow> nat \<Rightarrow> bool" where
  "still_building w url k =
     (\<forall>i<k. \<exists>r. network w (requests_sent w + i) url = Some r \<and> status_code r \<noteq> 200)"

definition poll_outcome :: "world \<Rightarrow> string \<Rightarrow> nat \<Rightarrow> error + response \<Rightarrow> bool" where
  "poll_outcome w url k res =
     (case res of
        Inl e \<Rightarrow> e = RequestException \<and> network w (requests_sent w + k) url = None
      | Inr r \<Rightarrow> network w (requests_sent w + k) url = Some r \<and> status_code r = 200)"

definition retry_world :: "world \<Rightarrow> string \<Rightarrow> nat \<Rightarrow> world" where
  "retry_world w url elapsed =
     logger_info (time_sleep (snd (requests_get w url)) 5) (still_downloading (elapsed + 5))"

fun poll_events :: "string \<Rightarrow> nat \<Rightarrow> nat \<Rightarrow> event list" where
  "poll_events url elapsed 0 = []"
| "poll_events url elapsed (Suc k) =
     [HttpGet url, Sleep 5, LogInfo (still_downloading (elapsed + 5))]
       @ poll_events url (elapsed + 5) k"

definition polled :: "world \<Rightarrow> string \<Rightarrow> nat \<Rightarrow> nat \<Rightarrow> world" where
  "polled w url elapsed k =
     w\<lparr>requests_sent := requests_sent w + Suc k,
       trace := trace w @ poll_events url elapsed k @ [HttpGet url]\<rparr>"

text \<open>
  A remote build seen from \<open>demo_world\<close>: the build service answers the first request
  with \<open>first_status\<close> and the pre-signed URL; the storage answers 404 to the next
  \<open>not_ready\<close> requests and then 200 with the given \<open>Content-Length\<close> header. In
  \<open>never_ready_world\<close> the storage answers 404 for ever.
\<close>

definition presigned_url :: string where
  "presigned_url = ''https://layerzip-bucket.s3.amazonaws.com/layers/demo.zip?X-Amz-Expires=300''"

definition remote_world :: "int \<Rightarrow> nat \<Rightarrow> string option \<Rightarrow> world" where
  "remote_world first_status not_ready content_length =
     demo_world\<lparr>network := (\<lambda>n url.
       if n = 0 then
         Some \<lparr>status_code = first_status, body_text = presigned_url, headers_get = (\<lambda>h. None)\<rparr>
       else if n \<le> not_ready then
         Some \<lparr>status_code = 404, body_text = [], headers_get = (\<lambda>h. None)\<rparr>
       else
         Some \<lparr>status_code = 200, body_text = [],
               headers_get = (\<lambda>h. if h = ''Content-Length'' then content_length else None)\<rparr>)\<rparr>"

definition never_ready_world :: world where
  "never_ready_world =
     demo_world\<lparr>network := (\<lambda>n url.
       Some \<lparr>status_code = 404, body_text = [], headers_get = (\<lambda>h. None)\<rparr>)\<rparr>"

text \<open>The world of a run that has sent the build request and is about to poll.\<close>

definition polling_world :: world where
  "polling_world = (remote_world 200 2 (Some ''300''))\<lparr>requests_sent := 1\<rparr>"

text \<open>
  The layer metadata of \<open>layer.json\<close>, and the world of a remote build after the
  packages configuration was read and the build request was sent.
\<close>

definition demo_name :: pyval where "demo_name = PStr ''demo''"
definition demo_description :: pyval where "demo_description = PStr ''a layer''"
definition demo_runtimes :: pyval where "demo_runtimes = PList [PStr ''python3.8'']"

definition sent_world :: "int \<Rightarrow> nat \<Rightarrow> string option \<Rightarrow> world" where
  "sent_world s k cl =
     emit (HttpGet (request_url ''x86_64'' ''py38'' ''a&b&c'' (IsInt 0)))
       ((emit (FsOpen ''packages.json'') (remote_world s k cl))\<lparr>requests_sent := 1\<rparr>)"

subsection \<open>Describing the inputs of the archiver\<close>



definition is_hexdigest :: "string \<Rightarrow> bool" where
  "is_hexdigest s = (length s = 32 \<and> list_all (\<lambda>c. c \<in> set ''0123456789abcdef'') s)"

definition fresh :: "filesystem \<Rightarrow> path \<Rightarrow> bool" where
  "fresh fs d = list_all (\<lambda>(p, n). \<not> prefix d p) fs"




text \<open>\<open>demo_world\<close> with one more source tree, in which one file cannot be read.\<close>

definition locked_world :: world where
  "locked_world =
     demo_world\<lparr>filesys := demo_fs @
       [([''work'', ''locked''], Dir),
        ([''work'', ''locked'', ''a.py''], File (Raw ''print'')),
        ([''work'', ''locked'', ''secret.key''], Unreadable)]\<rparr>"

text \<open>
  \<open>build_request_sent w packages url\<close>: the world \<open>w\<close> after the packages
  configuration was opened and the build request was sent to \<open>url\<close>.
  \<open>stalled_world\<close>: the build service accepts, the storage answers 404 for ever.
  \<open>local_world\<close>: the build service answers with a pre-signed URL of a store on
  \<open>localhost\<close>, whose host name has no dot; the archive is ready at the first poll.
\<close>

definition build_request_sent :: "world \<Rightarrow> string \<Rightarrow> string \<Rightarrow> world" where
  "build_request_sent w packages url =
     w\<lparr>requests_sent := Suc (requests_sent w),
       trace := trace w @ [FsOpen packages, HttpGet url]\<rparr>"

definition stalled_world :: world where
  "stalled_world =
     demo_world\<lparr>network := (\<lambda>n url.
       if n = 0 then
         Some \<lparr>status_code = 200, body_text = presigned_url, headers_get = (\<lambda>h. None)\<rparr>
       else
         Some \<lparr>status_code = 404, body_text = [], headers_get = (\<lambda>h. None)\<rparr>)\<rparr>"

definition local_url :: string where
  "local_url = ''http://localhost:9000/layers/demo.zip?X-Amz-Expires=300''"

definition local_world :: world where
  "local_world =
     demo_world\<lparr>network := (\<lambda>n url.
       if n = 0 then
         Some \<lparr>status_code = 200, body_text = local_url, headers_get = (\<lambda>h. None)\<rparr>
       else
         Some \<lparr>status_code = 200, body_text = [],
               headers_get = (\<lambda>h. if h = ''Content-Length'' then Some ''300'' else None)\<rparr>)\<rparr>"

section \<open>Properties\<close>

subsection \<open>Which exceptions the library calls raise\<close>

fun is_lamblayer_error :: "error \<Rightarrow> bool" where
  "is_lamblayer_error (LamblayerInvalidRegionError m) = True"
| "is_lamblayer_error (LamblayerInvalidOptionError m) = True"
| "is_lamblayer_error (LamblayerParamValidationError m) = True"
| "is_lamblayer_error (LamblayerCreateLayerError m) = True"
| "is_lamblayer_error e = False"

lemma walk_error: "walk fs cur cs = Inl e \<Longrightarrow> \<not> is_lamblayer_error e"
  by (induction cs arbitrary: cur) (auto split: option.splits node.splits)

lemma resolve_error: "resolve fs cwd s = Inl e \<Longrightarrow> \<not> is_lamblayer_error e"
  by (auto simp: resolve_def split: if_splits dest: walk_error)

lemma lookup_error: "lookup fs cwd s = Inl e \<Longrightarrow> \<not> is_lamblayer_error e"
  by (auto simp: lookup_def split: sum.splits option.splits dest: resolve_error)

lemma read_file_error: "read_file fs cwd s = Inl e \<Longrightarrow> \<not> is_lamblayer_error e"
  by (auto simp: read_file_def split: sum.splits prod.splits node.splits dest: lookup_error)

lemma json_load_error: "json_load w name = (Inl e, w') \<Longrightarrow> \<not> is_lamblayer_error e"
  by (auto simp: json_load_def open_read_def split: sum.splits blob.splits dest: read_file_error)

lemma json_load_world: "snd (json_load w name) = emit (FsOpen name) w"
  by (auto simp: json_load_def open_read_def split: sum.splits blob.splits)

lemma py_get_error: "py_get v key dflt = Inl e \<Longrightarrow> e = AttributeError"
  by (cases v) auto

lemma parse_create_layer_json_error:
  "parse_create_layer_json w layer_path = (Inl e, w') \<Longrightarrow> \<not> is_lamblayer_error e"
  by (auto simp: parse_create_layer_json_def split: prod.splits sum.splits
           dest: json_load_error py_get_error)

lemmas demo_eval =
  demo_world_def demo_fs_def json_load_def open_read_def read_file_def lookup_def resolve_def
  node_at_def start_dir_def emit_def

subsection \<open>The layer configuration is not validated\<close>

text \<open>
  C2, as the specification states it: \<open>_parse_create_layer_json\<close> raises a validation
  error when \<open>LayerName\<close> or \<open>CompatibleRuntimes\<close> is missing. It does not: for the
  configuration \<open>bare.json\<close>, which has neither, it returns normally, with \<open>None\<close> in
  their places.
\<close>

theorem parse_create_layer_json_accepts_missing_fields:
  "fst (parse_create_layer_json demo_world ''bare.json'')
     = Inr (PNone, PStr ''a layer'', PNone, PNone)"
  by (simp add: parse_create_layer_json_def demo_eval)

text \<open>
  C2, amended: \<open>_parse_create_layer_json\<close> validates nothing. It never raises a
  parameter validation error, and for every file that holds a JSON object it returns
  the values found under \<open>LayerName\<close>, \<open>Description\<close>, \<open>CompatibleRuntimes\<close> and
  \<open>LicenseInfo\<close>, with \<open>None\<close> for each key that is absent.
\<close>

theorem parse_create_layer_json_permissive:
  "(\<forall>m. fst (parse_create_layer_json w layer_path) \<noteq> Inl (LamblayerParamValidationError m)) \<and>
   (read_file (filesys w) (workdir w) layer_path = Inr (JsonDoc (PDict kvs)) \<longrightarrow>
      fst (parse_create_layer_json w layer_path)
        = Inr (case map_of kvs ''LayerName'' of None \<Rightarrow> PNone | Some v \<Rightarrow> v,
               case map_of kvs ''Description'' of None \<Rightarrow> PNone | Some v \<Rightarrow> v,
               case map_of kvs ''CompatibleRuntimes'' of None \<Rightarrow> PNone | Some v \<Rightarrow> v,
               case map_of kvs ''LicenseInfo'' of None \<Rightarrow> PNone | Some v \<Rightarrow> v))"
proof (intro conjI allI impI)
  fix m
  show "fst (parse_create_layer_json w layer_path) \<noteq> Inl (LamblayerParamValidationError m)"
  proof
    assume "fst (parse_create_layer_json w layer_path) = Inl (LamblayerParamValidationError m)"
    then obtain w' where "parse_create_layer_json w layer_path = (Inl (LamblayerParamValidationError m), w')"
      by (cases "parse_create_layer_json w layer_path") auto
    from parse_create_layer_json_error [OF this] show False
      by simp
  qed
next
  assume "read_file (filesys w) (workdir w) layer_path = Inr (JsonDoc (PDict kvs))"
  then show "fst (parse_create_layer_json w layer_path)
        = Inr (case map_of kvs ''LayerName'' of None \<Rightarrow> PNone | Some v \<Rightarrow> v,
               case map_of kvs ''Description'' of None \<Rightarrow> PNone | Some v \<Rightarrow> v,
               case map_of kvs ''CompatibleRuntimes'' of None \<Rightarrow> PNone | Some v \<Rightarrow> v,
               case map_of kvs ''LicenseInfo'' of None \<Rightarrow> PNone | Some v \<Rightarrow> v)"
    by (simp add: parse_create_layer_json_def json_load_def open_read_def)
qed

theorem parse_create_layer_json_permissive_witness:
  "read_file (filesys demo_world) (workdir demo_world) ''layer.json''
     = Inr (JsonDoc (PDict
         [(''LayerName'', PStr ''demo''), (''CompatibleRuntimes'', PList [PStr ''python3.8'']),
          (''Description'', PStr ''a layer'')])) \<and>
   fst (parse_create_layer_json demo_world ''layer.json'')
     = Inr (PStr ''demo'', PStr ''a layer'', PList [PStr ''python3.8''], PNone) \<and>
   fst (parse_create_layer_json demo_world ''layer.json'')
     \<noteq> Inl (LamblayerParamValidationError ''LayerName'')"
proof -
  have r: "read_file (filesys demo_world) (workdir demo_world) ''layer.json''
     = Inr (JsonDoc (PDict
         [(''LayerName'', PStr ''demo''), (''CompatibleRuntimes'', PList [PStr ''python3.8'']),
          (''Description'', PStr ''a layer'')]))"
    by (simp add: demo_eval)
  from parse_create_layer_json_permissive
         [of demo_world "''layer.json''"
             "[(''LayerName'', PStr ''demo''), (''CompatibleRuntimes'', PList [PStr ''python3.8'']),
               (''Description'', PStr ''a layer'')]"] r
  show ?thesis
    by simp
qed

subsection \<open>The validation error of the packages configuration\<close>

text \<open>
  C3: a packages configuration without \<open>Arch\<close> raises a parameter validation error
  whose message names \<open>Arch\<close>. The error is raised, but its message is the fixed first
  line of the constructor: for \<open>no_arch.json\<close> it does not contain \<open>Arch\<close>.
\<close>

theorem parse_packages_json_message_drops_field:
  "fst (parse_packages_json demo_world ''no_arch.json'')
     = Inl (LamblayerParamValidationError
             (''ParamValidationError: Parameter validation failed:'' @ [CHR 0x0A])) \<and>
   \<not> sublist ''Arch'' (''ParamValidationError: Parameter validation failed:'' @ [CHR 0x0A])"
  by (simp add: parse_packages_json_def check_packages_config_def
        new_LamblayerParamValidationError_def demo_eval sublist_Cons_right)

subsection \<open>The polling loop\<close>

lemma retry_world_fields:
  "network (retry_world w url e) = network w"
  "requests_sent (retry_world w url e) = Suc (requests_sent w)"
  "trace (retry_world w url e) = trace w @ [HttpGet url, Sleep 5, LogInfo (still_downloading (e + 5))]"
  "filesys (retry_world w url e) = filesys w"
  by (simp_all add: retry_world_def logger_info_def time_sleep_def requests_get_def emit_def)

lemma polled_retry: "polled (retry_world w url e) url (e + 5) k = polled w url e (Suc k)"
  by (simp add: polled_def retry_world_def logger_info_def time_sleep_def requests_get_def emit_def)

lemma wait_step:
  "wait_for_download w url e =
     (case network w (requests_sent w) url of
        None \<Rightarrow> Some (Inl RequestException, polled w url e 0)
      | Some r \<Rightarrow> if status_code r = 200 then Some (Inr r, polled w url e 0)
                  else wait_for_download (retry_world w url e) url (e + 5))"
  by (subst wait_for_download.simps)
     (simp add: requests_get_def polled_def retry_world_def emit_def split: option.splits)

text \<open>Whatever the loop returns, it returns after some \<open>k\<close> rounds of waiting.\<close>

lemma wait_sound:
  assumes "wait_for_download w url e = Some y"
  shows "\<exists>k. still_building w url k \<and> poll_outcome w url k (fst y) \<and> snd y = polled w url e k"
  using assms
proof (induction rule: wait_for_download.raw_induct [rotated 1, consumes 1])
  case (1 wait w url e y)
  show ?case
  proof (cases "network w (requests_sent w) url")
    case None
    with 1(2) have "y = (Inl RequestException, polled w url e 0)"
      by (simp add: requests_get_def polled_def emit_def)
    with None show ?thesis
      by (intro exI [of _ 0]) (simp add: still_building_def poll_outcome_def)
  next
    case (Some r)
    show ?thesis
    proof (cases "status_code r = 200")
      case True
      with Some 1(2) have "y = (Inr r, polled w url e 0)"
        by (simp add: requests_get_def polled_def emit_def)
      with Some True show ?thesis
        by (intro exI [of _ 0]) (simp add: still_building_def poll_outcome_def)
    next
      case False
      with Some 1(2) have step: "wait (retry_world w url e) url (e + 5) = Some y"
        by (simp add: requests_get_def retry_world_def)
      have "\<exists>k. still_building (retry_world w url e) url k \<and>
         poll_outcome (retry_world w url e) url k (fst y) \<and>
         snd y = polled (retry_world w url e) url (e + 5) k"
        by (rule 1(1) [OF step])
      then obtain k where k:
        "still_building (retry_world w url e) url k"
        "poll_outcome (retry_world w url e) url k (fst y)"
        "snd y = polled (retry_world w url e) url (e + 5) k"
        by blast
      have "still_building w url (Suc k)"
        unfolding still_building_def
      proof (intro allI impI)
        fix i assume "i < Suc k"
        show "\<exists>r. network w (requests_sent w + i) url = Some r \<and> status_code r \<noteq> 200"
        proof (cases i)
          case 0
          with Some False show ?thesis by simp
        next
          case (Suc j)
          with \<open>i < Suc k\<close> k(1) show ?thesis
            by (auto simp: still_building_def retry_world_fields)
        qed
      qed
      moreover from k(2) have "poll_outcome w url (Suc k) (fst y)"
        by (simp add: poll_outcome_def retry_world_fields split: sum.splits)
      moreover from k(3) have "snd y = polled w url e (Suc k)"
        by (simp add: polled_retry)
      ultimately show ?thesis by blast
    qed
  qed
qed

text \<open>Conversely, \<open>k\<close> rounds of waiting followed by a 200 or an exception end the loop.\<close>

lemma wait_complete:
  "still_building w url k \<Longrightarrow> poll_outcome w url k res \<Longrightarrow>
     wait_for_download w url e = Some (res, polled w url e k)"
proof (induction k arbitrary: w e)
  case 0
  then show ?case
    by (subst wait_step) (auto simp: poll_outcome_def split: sum.splits)
next
  case (Suc k)
  from Suc.prems(1) obtain r where r: "network w (requests_sent w) url = Some r" "status_code r \<noteq> 200"
    by (auto simp: still_building_def)
  from Suc.prems(1) have "still_building (retry_world w url e) url k"
    by (auto simp: still_building_def retry_world_fields)
  moreover from Suc.prems(2) have "poll_outcome (retry_world w url e) url k res"
    by (simp add: poll_outcome_def retry_world_fields split: sum.splits)
  ultimately have "wait_for_download (retry_world w url e) url (e + 5)
      = Some (res, polled (retry_world w url e) url (e + 5) k)"
    by (rule Suc.IH)
  with r show ?case
    by (subst wait_step) (simp add: polled_retry)
qed

lemma wait_diverges:
  assumes "\<forall>k. \<exists>r. network w (requests_sent w + k) url = Some r \<and> status_code r \<noteq> 200"
  shows "wait_for_download w url e = None"
proof (rule ccontr)
  assume "wait_for_download w url e \<noteq> None"
  then obtain y where "wait_for_download w url e = Some y" by auto
  from wait_sound [OF this] obtain k where "poll_outcome w url k (fst y)" by blast
  with assms [rule_format, of k] show False
    by (auto simp: poll_outcome_def split: sum.splits)
qed

lemma poll_events_no_publish: "Publish req \<notin> set (poll_events url e k)"
  by (induction k arbitrary: e) auto

lemma parse_packages_json_world: "snd (parse_packages_json w p) = emit (FsOpen p) w"
  by (auto simp: parse_packages_json_def json_load_def open_read_def split: prod.splits sum.splits blob.splits)

lemma requests_get_world:
  "snd (requests_get w url) = emit (HttpGet url) (w\<lparr>requests_sent := Suc (requests_sent w)\<rparr>)"
  by (simp add: requests_get_def)

lemmas remote_eval = polling_world_def remote_world_def demo_world_def never_ready_world_def

subsection \<open>The remote build, branch by branch\<close>

lemma py_join_error: "py_join sep vs = Inl e \<Longrightarrow> e = TypeError"
  by (auto simp: py_join_def split: option.splits)

lemma check_packages_config_error:
  "check_packages_config cfg = Inl e \<Longrightarrow>
     e = AttributeError \<or> e = TypeError \<or>
     e = LamblayerParamValidationError (''ParamValidationError: Parameter validation failed:'' @ [CHR 0x0A])"
  by (auto simp: check_packages_config_def new_LamblayerParamValidationError_def
           split: sum.splits option.splits pyval.splits
           dest: py_get_error py_join_error)

lemma parse_packages_json_error:
  "parse_packages_json w p = (Inl e, w1) \<Longrightarrow>
     (\<forall>m. e \<noteq> LamblayerCreateLayerError m) \<and> (\<forall>m. e \<noteq> LamblayerInvalidOptionError m)"
  by (auto simp: parse_packages_json_def split: prod.splits sum.splits
           dest: json_load_error check_packages_config_error)

lemma requests_get_error: "requests_get w url = (Inl e, w') \<Longrightarrow> e = RequestException"
  by (auto simp: requests_get_def split: option.splits)

lemma wait_error: "wait_for_download w url e = Some (Inl err, w') \<Longrightarrow> err = RequestException"
  by (drule wait_sound) (auto simp: poll_outcome_def)

lemma wait_ready: "wait_for_download w url e = Some (Inr r, w') \<Longrightarrow> status_code r = 200"
  by (drule wait_sound) (auto simp: poll_outcome_def)

lemma py_split_nonempty: "py_split sep maxsplit s \<noteq> []"
  by (subst py_split.simps) (auto split: option.splits)

lemma item_first_total: "xs \<noteq> [] \<Longrightarrow> \<exists>x. item_first xs = Inr x"
  by (cases xs) auto

lemma item_last_total: "xs \<noteq> [] \<Longrightarrow> \<exists>x. item_last xs = Inr x"
  by (induction xs rule: item_last.induct) auto

lemma s3_bucket_of_total: "\<exists>b. s3_bucket_of url = Inr b"
proof -
  obtain h where "item_first (py_split ''.'' None url) = Inr h"
    using item_first_total [OF py_split_nonempty] by blast
  then show ?thesis
    using item_last_total [OF py_split_nonempty, of "''//''" None h]
    by (simp add: s3_bucket_of_def)
qed

lemma s3_key_of_total: "\<exists>k. s3_key_of url = Inr k"
  using item_last_total [OF py_split_nonempty] by (simp add: s3_key_of_def)

lemma publish_error: "publish_layer_version w req = (Inl e, w') \<Longrightarrow> e = ClientError"
  by (auto simp: publish_layer_version_def split: option.splits)

lemma py_int_error: "py_int x = Inl e \<Longrightarrow> e = TypeError \<or> e = ValueError"
  by (cases x) (auto simp: int_of_str_def Let_def split: option.splits)

lemma cfp_parse_fail:
  "parse_packages_json w p = (Inl e, w1) \<Longrightarrow>
     create_from_packages w p ln d cr li = Some (Inl e, w1)"
  by (simp add: create_from_packages_def)

lemma cfp_get_fail:
  "parse_packages_json w p = (Inr (arch, runtime, ps, nd), w1) \<Longrightarrow>
   requests_get w1 (request_url arch runtime ps nd) = (Inl e, w2) \<Longrightarrow>
     create_from_packages w p ln d cr li = Some (Inl e, w2)"
  by (simp add: create_from_packages_def)

lemma cfp_not_2xx:
  "parse_packages_json w p = (Inr (arch, runtime, ps, nd), w1) \<Longrightarrow>
   requests_get w1 (request_url arch runtime ps nd) = (Inr r0, w2) \<Longrightarrow>
   \<not> (200 \<le> status_code r0 \<and> status_code r0 < 300) \<Longrightarrow>
     create_from_packages w p ln d cr li
       = Some (Inl (LamblayerCreateLayerError
           ''Something went wrong..., Please contact with higuchi@adansons.co.jp''), w2)"
proof -
  assume a: "parse_packages_json w p = (Inr (arch, runtime, ps, nd), w1)"
    "requests_get w1 (request_url arch runtime ps nd) = (Inr r0, w2)"
    and "\<not> (200 \<le> status_code r0 \<and> status_code r0 < 300)"
  then have c: "(200 \<le> status_code r0 \<and> status_code r0 < 300) = False"
    by simp
  show ?thesis
    unfolding create_from_packages_def new_LamblayerCreateLayerError_def
    by (simp add: a c)
qed

lemma cfp_polling:
  "parse_packages_json w p = (Inr (arch, runtime, ps, nd), w1) \<Longrightarrow>
   requests_get w1 (request_url arch runtime ps nd) = (Inr r0, w2) \<Longrightarrow>
   200 \<le> status_code r0 \<and> status_code r0 < 300 \<Longrightarrow>
     create_from_packages w p ln d cr li
       = (case wait_for_download w2 (body_text r0) 0 of
            None \<Rightarrow> None
          | Some (Inl e, w3) \<Rightarrow> Some (Inl e, w3)
          | Some (Inr r, w3) \<Rightarrow>
              (case py_int (headers_get r ''Content-Length'') of
                 Inl e \<Rightarrow> Some (Inl e, w3)
               | Inr n \<Rightarrow>
                   if n < 200 then
                     Some (Inl (LamblayerCreateLayerError
                       ''Something went wrong..., Please check the pakcage name and version again.''), w3)
                   else
                     (case s3_bucket_of (body_text r0) of
                        Inl e \<Rightarrow> Some (Inl e, w3)
                      | Inr s3_bucket \<Rightarrow>
                     (case s3_key_of (body_text r0) of
                        Inl e \<Rightarrow> Some (Inl e, w3)
                      | Inr s3_key \<Rightarrow>
                     (case publish_layer_version w3
                             \<lparr>LayerName = ln, Description = d,
                              Content = S3Object s3_bucket s3_key,
                              CompatibleRuntimes = cr, LicenseInfo = li\<rparr> of
                        (Inl e, w4) \<Rightarrow> Some (Inl e, w4)
                      | (Inr layer_version_arn, w4) \<Rightarrow> Some (Inr (), w4))))))"
proof -
  assume a: "parse_packages_json w p = (Inr (arch, runtime, ps, nd), w1)"
    "requests_get w1 (request_url arch runtime ps nd) = (Inr r0, w2)"
    and "200 \<le> status_code r0 \<and> status_code r0 < 300"
  then have c: "(200 \<le> status_code r0 \<and> status_code r0 < 300) = True"
    by simp
  show ?thesis
    unfolding create_from_packages_def new_LamblayerCreateLayerError_def Let_def
    by (simp add: a c)
qed

lemma cfp_ready_error:
  assumes "parse_packages_json w p = (Inr (arch, runtime, ps, nd), w1)"
      and "requests_get w1 (request_url arch runtime ps nd) = (Inr r0, w2)"
      and "200 \<le> status_code r0 \<and> status_code r0 < 300"
      and "create_from_packages w p ln d cr li = Some (Inl (LamblayerCreateLayerError m), w')"
  shows "\<exists>r w3 n. wait_for_download w2 (body_text r0) 0 = Some (Inr r, w3) \<and>
           py_int (headers_get r ''Content-Length'') = Inr n \<and> n < 200"
proof -
  note run = assms(4) [unfolded cfp_polling [OF assms(1-3)]]
  obtain b where b: "s3_bucket_of (body_text r0) = Inr b"
    using s3_bucket_of_total by blast
  obtain k where k: "s3_key_of (body_text r0) = Inr k"
    using s3_key_of_total by blast
  from run obtain res w3 where y: "wait_for_download w2 (body_text r0) 0 = Some (res, w3)"
    by (cases "wait_for_download w2 (body_text r0) 0") auto
  show ?thesis
  proof (cases res)
    case (Inl e)
    with y wait_error [of w2 "body_text r0" 0 e w3] run show ?thesis
      by simp
  next
    case (Inr r)
    show ?thesis
    proof (cases "py_int (headers_get r ''Content-Length'')")
      case (Inl e)
      with y Inr run py_int_error [OF Inl] show ?thesis
        by auto
    next
      case (Inr n) note n = this
      show ?thesis
      proof (cases "n < 200")
        case True
        with y \<open>res = Inr r\<close> n show ?thesis by blast
      next
        case False
        with y \<open>res = Inr r\<close> n run b k show ?thesis
          by (auto split: prod.splits sum.splits dest: publish_error)
      qed
    qed
  qed
qed

lemma first_request:
  "requests_get (emit (FsOpen packages) w) url
     = (case network w (requests_sent w) url of
          None \<Rightarrow> Inl RequestException
        | Some r0 \<Rightarrow> Inr r0,
        build_request_sent w packages url)"
  by (simp add: requests_get_def emit_def build_request_sent_def)

lemma cfp_returns_iff:
  assumes parse: "parse_packages_json w p = (Inr (arch, runtime, ps, nd), w1)"
      and get: "requests_get w1 (request_url arch runtime ps nd) = (Inr r0, w2)"
      and ok: "200 \<le> status_code r0 \<and> status_code r0 < 300"
  shows "create_from_packages w p ln d cr li = None
           \<longleftrightarrow> wait_for_download w2 (body_text r0) 0 = None"
proof -
  obtain b where b: "s3_bucket_of (body_text r0) = Inr b"
    using s3_bucket_of_total by blast
  obtain k where k: "s3_key_of (body_text r0) = Inr k"
    using s3_key_of_total by blast
  show ?thesis
    unfolding cfp_polling [OF parse get ok]
    by (auto simp: b k split: option.splits prod.splits sum.splits)
qed

subsection \<open>Runs of the remote build in the example worlds\<close>

lemma demo_parse:
  "filesys w = demo_fs \<Longrightarrow> workdir w = [''work''] \<Longrightarrow>
     parse_packages_json w ''packages.json''
       = (Inr (''x86_64'', ''py38'', ''a&b&c'', IsInt 0), emit (FsOpen ''packages.json'') w)"
  by (simp add: parse_packages_json_def check_packages_config_def py_join_def
        json_load_def open_read_def read_file_def lookup_def resolve_def node_at_def
        start_dir_def demo_fs_def)

lemma remote_parse:
  "parse_packages_json (remote_world s k cl) ''packages.json''
     = (Inr (''x86_64'', ''py38'', ''a&b&c'', IsInt 0),
        emit (FsOpen ''packages.json'') (remote_world s k cl))"
  by (simp add: parse_packages_json_def check_packages_config_def py_join_def
        remote_world_def demo_eval)

lemma remote_get:
  "requests_get (emit (FsOpen ''packages.json'') (remote_world s k cl))
       (request_url ''x86_64'' ''py38'' ''a&b&c'' (IsInt 0))
     = (Inr \<lparr>status_code = s, body_text = presigned_url, headers_get = (\<lambda>h. None)\<rparr>,
        sent_world s k cl)"
  by (simp add: requests_get_def sent_world_def remote_world_def demo_world_def emit_def)

lemma remote_wait:
  "wait_for_download (sent_world s k cl) presigned_url 0
     = Some (Inr \<lparr>status_code = 200, body_text = [],
                  headers_get = (\<lambda>h. if h = ''Content-Length'' then cl else None)\<rparr>,
             polled (sent_world s k cl) presigned_url 0 k)"
  by (rule wait_complete)
     (simp_all add: still_building_def poll_outcome_def sent_world_def remote_world_def
        demo_world_def emit_def)

lemma url_demo: "request_url ''x86_64'' ''py38'' ''a&b&c'' (IsInt 0)
   = ''https://layerzip.higuchi.work/x86_64/py38/a&b&c?no-deps=0''"
  by code_simp

lemma int_150: "int_of_str ''150'' = Inr 150" "int_of_str ''300'' = Inr 300"
  by (simp_all add: int_of_str_def py_strip_def py_isspace_def parse_digits_def py_isdigit_def digit_value_def)

lemma bucket_demo: "s3_bucket_of presigned_url = Inr ''layerzip-bucket''"
  by (simp add: s3_bucket_of_def presigned_url_def py_split.simps)

lemma key_demo: "s3_key_of presigned_url = Inr ''layers/demo.zip?X-Amz-Expires=300''"
  by (simp add: s3_key_of_def presigned_url_def py_split.simps)

lemma run_404:
  "create_from_packages (remote_world 404 0 None) ''packages.json'' ln d cr li
     = Some (Inl (LamblayerCreateLayerError
          ''Something went wrong..., Please contact with higuchi@adansons.co.jp''),
        sent_world 404 0 None)"
  by (rule cfp_not_2xx [OF remote_parse remote_get]) simp

lemma run_ready:
  "create_from_packages (remote_world 200 k cl) ''packages.json'' ln d cr li
     = (case py_int cl of
          Inl e \<Rightarrow> Some (Inl e, polled (sent_world 200 k cl) presigned_url 0 k)
        | Inr n \<Rightarrow>
            if n < 200 then
              Some (Inl (LamblayerCreateLayerError
                ''Something went wrong..., Please check the pakcage name and version again.''),
                polled (sent_world 200 k cl) presigned_url 0 k)
            else
              Some (Inr (),
                emit (Publish \<lparr>LayerName = ln, Description = d,
                       Content = S3Object ''layerzip-bucket'' ''layers/demo.zip?X-Amz-Expires=300'',
                       CompatibleRuntimes = cr, LicenseInfo = li\<rparr>)
                  (polled (sent_world 200 k cl) presigned_url 0 k)))"
proof -
  have "layer_service (polled (sent_world 200 k cl) presigned_url 0 k) = (\<lambda>req. Some ''arn:aws:lambda:layer:demo:1'')"
    by (simp add: polled_def sent_world_def remote_world_def demo_world_def emit_def)
  then show ?thesis
    by (subst cfp_polling [OF remote_parse remote_get])
       (simp_all add: remote_wait bucket_demo key_demo publish_layer_version_def split: sum.splits)
qed


lemma polling_world_eq: "polling_world = ((remote_world 200 2 (Some ''300''))\<lparr>requests_sent := 1\<rparr>)"
  by (simp add: polling_world_def)

lemma polling_world_run:
  "wait_for_download polling_world presigned_url 0
     = Some (Inr \<lparr>status_code = 200, body_text = [],
                  headers_get = (\<lambda>h. if h = ''Content-Length'' then Some ''300'' else None)\<rparr>,
             polled polling_world presigned_url 0 2)"
  by (rule wait_complete)
     (simp_all add: still_building_def poll_outcome_def remote_eval)

subsection \<open>Leaving the polling loop\<close>

lemma loop_left:
  assumes parse: "parse_packages_json w p = (Inr (arch, runtime, ps, nd), w1)"
      and get: "requests_get w1 (request_url arch runtime ps nd) = (Inr r0, w2)"
      and ok: "200 \<le> status_code r0 \<and> status_code r0 < 300"
      and run: "create_from_packages w p ln d cr li = Some (res, w'')"
  shows "(\<exists>k. still_building w2 (body_text r0) k \<and>
              network w2 (requests_sent w2 + k) (body_text r0) = None \<and>
              res = Inl RequestException \<and> w'' = polled w2 (body_text r0) 0 k) \<or>
         (\<exists>r w3 k. wait_for_download w2 (body_text r0) 0 = Some (Inr r, w3) \<and>
              status_code r = 200 \<and>
              network w2 (requests_sent w2 + k) (body_text r0) = Some r \<and>
              still_building w2 (body_text r0) k \<and> w3 = polled w2 (body_text r0) 0 k)"
proof -
  note run' = run [unfolded cfp_polling [OF parse get ok]]
  then obtain yr w3 where y: "wait_for_download w2 (body_text r0) 0 = Some (yr, w3)"
    by (cases "wait_for_download w2 (body_text r0) 0") auto
  from wait_sound [OF y] obtain k where k:
    "still_building w2 (body_text r0) k" "poll_outcome w2 (body_text r0) k yr"
    "w3 = polled w2 (body_text r0) 0 k"
    by auto
  show ?thesis
  proof (cases yr)
    case (Inl e)
    with k(2) have "e = RequestException" "network w2 (requests_sent w2 + k) (body_text r0) = None"
      by (simp_all add: poll_outcome_def)
    moreover from run' y Inl have "res = Inl e" "w'' = w3"
      by simp_all
    ultimately show ?thesis
      using k(1,3) by blast
  next
    case (Inr r)
    with k(2) have "network w2 (requests_sent w2 + k) (body_text r0) = Some r" "status_code r = 200"
      by (simp_all add: poll_outcome_def)
    with y Inr k(1,3) show ?thesis
      by blast
  qed
qed

lemma publish_after_200:
  assumes run: "create_from_packages w p ln d cr li = Some (res, w'')"
      and pub: "Publish req \<in> set (trace w'')"
      and new: "Publish req \<notin> set (trace w)"
  shows "\<exists>arch runtime ps nd w1 r0 w2 r w3 k.
           parse_packages_json w p = (Inr (arch, runtime, ps, nd), w1) \<and>
           requests_get w1 (request_url arch runtime ps nd) = (Inr r0, w2) \<and>
           wait_for_download w2 (body_text r0) 0 = Some (Inr r, w3) \<and>
           status_code r = 200 \<and>
           network w2 (requests_sent w2 + k) (body_text r0) = Some r \<and>
           still_building w2 (body_text r0) k"
proof -
  obtain pr w1 where parse: "parse_packages_json w p = (pr, w1)"
    by (cases "parse_packages_json w p")
  with parse_packages_json_world [of w p] have w1: "w1 = emit (FsOpen p) w"
    by simp
  show ?thesis
  proof (cases pr)
    case (Inl e)
    with run parse w1 pub new cfp_parse_fail [of w p e w1 ln d cr li] show ?thesis
      by (auto simp: emit_def)
  next
    case (Inr cfg)
    obtain arch runtime ps nd where cfg: "cfg = (arch, runtime, ps, nd)"
      by (cases cfg) auto
    note parse' = parse [unfolded Inr cfg]
    let ?url = "request_url arch runtime ps nd"
    obtain rr w2 where get: "requests_get w1 ?url = (rr, w2)"
      by (cases "requests_get w1 ?url")
    with requests_get_world [of w1 ?url] have w2: "trace w2 = trace w @ [FsOpen p, HttpGet ?url]"
      by (simp add: w1 emit_def)
    show ?thesis
    proof (cases rr)
      case (Inl e)
      with run get w2 pub new cfp_get_fail [OF parse', of e w2 ln d cr li] show ?thesis
        by auto
    next
      case (Inr r0)
      note get' = get [unfolded Inr]
      show ?thesis
      proof (cases "200 \<le> status_code r0 \<and> status_code r0 < 300")
        case False
        from cfp_not_2xx [OF parse' get' False, of ln d cr li] run w2 pub new show ?thesis
          by auto
      next
        case True
        from loop_left [OF parse' get' True run]
        show ?thesis
        proof
          assume "\<exists>k. still_building w2 (body_text r0) k \<and>
              network w2 (requests_sent w2 + k) (body_text r0) = None \<and>
              res = Inl RequestException \<and> w'' = polled w2 (body_text r0) 0 k"
          then obtain k where "w'' = polled w2 (body_text r0) 0 k"
            by blast
          with pub new w2 show ?thesis
            by (auto simp: polled_def poll_events_no_publish)
        next
          assume "\<exists>r w3 k. wait_for_download w2 (body_text r0) 0 = Some (Inr r, w3) \<and>
              status_code r = 200 \<and>
              network w2 (requests_sent w2 + k) (body_text r0) = Some r \<and>
              still_building w2 (body_text r0) k \<and> w3 = polled w2 (body_text r0) 0 k"
          with parse' get' show ?thesis
            by blast
        qed
      qed
    qed
  qed
qed

lemma size_check_after_200:
  assumes run: "create_from_packages w p ln d cr li
       = Some (Inl (LamblayerCreateLayerError
           ''Something went wrong..., Please check the pakcage name and version again.''), w'')"
  shows "\<exists>arch runtime ps nd w1 r0 w2 r w3 k.
           parse_packages_json w p = (Inr (arch, runtime, ps, nd), w1) \<and>
           requests_get w1 (request_url arch runtime ps nd) = (Inr r0, w2) \<and>
           wait_for_download w2 (body_text r0) 0 = Some (Inr r, w3) \<and>
           status_code r = 200 \<and>
           network w2 (requests_sent w2 + k) (body_text r0) = Some r \<and>
           still_building w2 (body_text r0) k"
proof -
  obtain pr w1 where parse: "parse_packages_json w p = (pr, w1)"
    by (cases "parse_packages_json w p")
  show ?thesis
  proof (cases pr)
    case (Inl e)
    with parse run cfp_parse_fail [of w p e w1 ln d cr li] parse_packages_json_error [of w p e w1]
    show ?thesis by auto
  next
    case (Inr cfg)
    obtain arch runtime ps nd where cfg: "cfg = (arch, runtime, ps, nd)"
      by (cases cfg) auto
    note parse' = parse [unfolded Inr cfg]
    obtain rr w2 where get: "requests_get w1 (request_url arch runtime ps nd) = (rr, w2)"
      by (cases "requests_get w1 (request_url arch runtime ps nd)")
    show ?thesis
    proof (cases rr)
      case (Inl e)
      with get run cfp_get_fail [OF parse', of e w2 ln d cr li]
        requests_get_error [of w1 "request_url arch runtime ps nd" e w2]
      show ?thesis by auto
    next
      case (Inr r0)
      note get' = get [unfolded Inr]
      show ?thesis
      proof (cases "200 \<le> status_code r0 \<and> status_code r0 < 300")
        case False
        from cfp_not_2xx [OF parse' get' False, of ln d cr li] run show ?thesis
          by simp
      next
        case True
        from loop_left [OF parse' get' True run] parse' get' show ?thesis
          by blast
      qed
    qed
  qed
qed

lemma no_200_no_return:
  assumes parse: "parse_packages_json w p = (Inr (arch, runtime, ps, nd), w1)"
      and get: "requests_get w1 (request_url arch runtime ps nd) = (Inr r0, w2)"
      and ok: "200 \<le> status_code r0 \<and> status_code r0 < 300"
      and never: "\<forall>k. \<exists>r. network w2 (requests_sent w2 + k) (body_text r0) = Some r \<and> status_code r \<noteq> 200"
  shows "create_from_packages w p ln d cr li = None"
  unfolding cfp_polling [OF parse get ok] wait_diverges [OF never] by simp


text \<open>
  C9: the loop is left only through a poll that returned status 200 (or through an
  exception of the request, which ends the command): what it returns with status 200
  is the response of the first poll whose status is 200, after \<open>k\<close> polls with
  another status. Each poll with another status leads through \<open>time.sleep(5)\<close>, five
  more seconds of logged elapsed time, and the loop again. Nothing bounds the number
  of rounds: if every poll is answered with a status other than 200 the loop does not
  return, and neither does \<open>create\<close>. A run of \<open>create\<close> that publishes, or that
  raises the error of the \<open>Content-Length\<close> check, is a run in which the
  configuration was read, the build request answered, and the polls of the pre-signed
  URL it answered with reached a response with status 200.
\<close>

theorem polling_loop:
  "(wait_for_download w url e = Some (Inr r, w') \<longrightarrow>
      status_code r = 200 \<and>
      (\<exists>k. network w (requests_sent w + k) url = Some r \<and> still_building w url k \<and>
           w' = polled w url e k)) \<and>
   (network w (requests_sent w) url = Some r1 \<and> status_code r1 \<noteq> 200 \<longrightarrow>
      wait_for_download w url e = wait_for_download (retry_world w url e) url (e + 5) \<and>
      trace (retry_world w url e)
        = trace w @ [HttpGet url, Sleep 5, LogInfo (still_downloading (e + 5))]) \<and>
   ((\<forall>k. \<exists>r. network w (requests_sent w + k) url = Some r \<and> status_code r \<noteq> 200) \<longrightarrow>
      wait_for_download w url e = None) \<and>
   (create_from_packages v p ln d cr li = Some (res, v') \<and>
    (Publish req \<in> set (trace v') \<and> Publish req \<notin> set (trace v) \<or>
     res = Inl (LamblayerCreateLayerError
       ''Something went wrong..., Please check the pakcage name and version again.'')) \<longrightarrow>
      (\<exists>arch runtime ps nd v1 r0 v2 r2 v3 k.
          parse_packages_json v p = (Inr (arch, runtime, ps, nd), v1) \<and>
          requests_get v1 (request_url arch runtime ps nd) = (Inr r0, v2) \<and>
          wait_for_download v2 (body_text r0) 0 = Some (Inr r2, v3) \<and>
          status_code r2 = 200 \<and>
          network v2 (requests_sent v2 + k) (body_text r0) = Some r2 \<and>
          still_building v2 (body_text r0) k)) \<and>
   (parse_packages_json v p = (Inr (arch, runtime, ps, nd), v1) \<and>
    requests_get v1 (request_url arch runtime ps nd) = (Inr r0, v2) \<and>
    200 \<le> status_code r0 \<and> status_code r0 < 300 \<and>
    (\<forall>k. \<exists>r. network v2 (requests_sent v2 + k) (body_text r0) = Some r \<and> status_code r \<noteq> 200) \<longrightarrow>
      create_from_packages v p ln d cr li = None)"
proof -
  have a: "wait_for_download w url e = Some (Inr r, w') \<longrightarrow>
      status_code r = 200 \<and>
      (\<exists>k. network w (requests_sent w + k) url = Some r \<and> still_building w url k \<and>
           w' = polled w url e k)"
  proof
    assume "wait_for_download w url e = Some (Inr r, w')"
    from wait_sound [OF this]
    show "status_code r = 200 \<and>
      (\<exists>k. network w (requests_sent w + k) url = Some r \<and> still_building w url k \<and>
           w' = polled w url e k)"
      by (auto simp: poll_outcome_def)
  qed
  have b: "network w (requests_sent w) url = Some r1 \<and> status_code r1 \<noteq> 200 \<longrightarrow>
      wait_for_download w url e = wait_for_download (retry_world w url e) url (e + 5) \<and>
      trace (retry_world w url e)
        = trace w @ [HttpGet url, Sleep 5, LogInfo (still_downloading (e + 5))]"
  proof
    assume "network w (requests_sent w) url = Some r1 \<and> status_code r1 \<noteq> 200"
    then show "wait_for_download w url e = wait_for_download (retry_world w url e) url (e + 5) \<and>
      trace (retry_world w url e)
        = trace w @ [HttpGet url, Sleep 5, LogInfo (still_downloading (e + 5))]"
      by (subst wait_step) (simp add: retry_world_fields)
  qed
  have c: "(\<forall>k. \<exists>r. network w (requests_sent w + k) url = Some r \<and> status_code r \<noteq> 200) \<longrightarrow>
      wait_for_download w url e = None"
    using wait_diverges by blast
  have d: "create_from_packages v p ln d cr li = Some (res, v') \<and>
    (Publish req \<in> set (trace v') \<and> Publish req \<notin> set (trace v) \<or>
     res = Inl (LamblayerCreateLayerError
       ''Something went wrong..., Please check the pakcage name and version again.'')) \<longrightarrow>
      (\<exists>arch runtime ps nd v1 r0 v2 r2 v3 k.
          parse_packages_json v p = (Inr (arch, runtime, ps, nd), v1) \<and>
          requests_get v1 (request_url arch runtime ps nd) = (Inr r0, v2) \<and>
          wait_for_download v2 (body_text r0) 0 = Some (Inr r2, v3) \<and>
          status_code r2 = 200 \<and>
          network v2 (requests_sent v2 + k) (body_text r0) = Some r2 \<and>
          still_building v2 (body_text r0) k)"
  proof
    assume h: "create_from_packages v p ln d cr li = Some (res, v') \<and>
      (Publish req \<in> set (trace v') \<and> Publish req \<notin> set (trace v) \<or>
       res = Inl (LamblayerCreateLayerError
         ''Something went wrong..., Please check the pakcage name and version again.''))"
    then consider "Publish req \<in> set (trace v') \<and> Publish req \<notin> set (trace v)"
      | "res = Inl (LamblayerCreateLayerError
         ''Something went wrong..., Please check the pakcage name and version again.'')"
      by blast
    then show "\<exists>arch runtime ps nd v1 r0 v2 r2 v3 k.
          parse_packages_json v p = (Inr (arch, runtime, ps, nd), v1) \<and>
          requests_get v1 (request_url arch runtime ps nd) = (Inr r0, v2) \<and>
          wait_for_download v2 (body_text r0) 0 = Some (Inr r2, v3) \<and>
          status_code r2 = 200 \<and>
          network v2 (requests_sent v2 + k) (body_text r0) = Some r2 \<and>
          still_building v2 (body_text r0) k"
    proof cases
      case 1
      with h publish_after_200 [of v p ln d cr li res v' req] show ?thesis
        by blast
    next
      case 2
      with h size_check_after_200 [of v p ln d cr li v'] show ?thesis
        by blast
    qed
  qed
  have e: "parse_packages_json v p = (Inr (arch, runtime, ps, nd), v1) \<and>
    requests_get v1 (request_url arch runtime ps nd) = (Inr r0, v2) \<and>
    200 \<le> status_code r0 \<and> status_code r0 < 300 \<and>
    (\<forall>k. \<exists>r. network v2 (requests_sent v2 + k) (body_text r0) = Some r \<and> status_code r \<noteq> 200) \<longrightarrow>
      create_from_packages v p ln d cr li = None"
    using no_200_no_return [of v p arch runtime ps nd v1 r0 v2 ln d cr li] by blast
  show ?thesis
    by (rule conjI [OF a conjI [OF b conjI [OF c conjI [OF d e]]]])
qed

theorem polling_loop_witness:
  "status_code \<lparr>status_code = 200, body_text = [],
       headers_get = (\<lambda>h. if h = ''Content-Length'' then Some ''300'' else None)\<rparr> = 200 \<and>
   (\<exists>k. still_building polling_world presigned_url k \<and>
        polled polling_world presigned_url 0 2 = polled polling_world presigned_url 0 k) \<and>
   network polling_world (requests_sent polling_world) presigned_url
     = Some \<lparr>status_code = 404, body_text = [], headers_get = (\<lambda>h. None)\<rparr> \<and>
   wait_for_download polling_world presigned_url 0
     = wait_for_download (retry_world polling_world presigned_url 0) presigned_url 5 \<and>
   trace (retry_world polling_world presigned_url 0)
     = [HttpGet presigned_url, Sleep 5, LogInfo ''still downloading packages... 5s elapsed''] \<and>
   wait_for_download never_ready_world presigned_url 0 = None \<and>
   (\<exists>arch runtime ps nd v1 r0 v2 r2 v3 k.
       parse_packages_json (remote_world 200 2 (Some ''300'')) ''packages.json''
         = (Inr (arch, runtime, ps, nd), v1) \<and>
       requests_get v1 (request_url arch runtime ps nd) = (Inr r0, v2) \<and>
       wait_for_download v2 (body_text r0) 0 = Some (Inr r2, v3) \<and>
       status_code r2 = 200 \<and>
       network v2 (requests_sent v2 + k) (body_text r0) = Some r2 \<and>
       still_building v2 (body_text r0) k) \<and>
   create_from_packages stalled_world ''packages.json''
       demo_name demo_description demo_runtimes PNone = None"
proof -
  let ?ready = "\<lparr>status_code = 200, body_text = [],
       headers_get = (\<lambda>h. if h = ''Content-Length'' then Some ''300'' else None)\<rparr>"
  let ?busy = "\<lparr>status_code = 404, body_text = [], headers_get = (\<lambda>h. None) :: string \<Rightarrow> string option\<rparr>"
  let ?first = "\<lparr>status_code = 200, body_text = presigned_url,
       headers_get = (\<lambda>h. None) :: string \<Rightarrow> string option\<rparr>"
  let ?req = "\<lparr>LayerName = demo_name, Description = demo_description,
       Content = S3Object ''layerzip-bucket'' ''layers/demo.zip?X-Amz-Expires=300'',
       CompatibleRuntimes = demo_runtimes, LicenseInfo = PNone\<rparr>"
  let ?final = "emit (Publish ?req) (polled (sent_world 200 2 (Some ''300'')) presigned_url 0 2)"
  let ?url = "request_url ''x86_64'' ''py38'' ''a&b&c'' (IsInt 0)"
  let ?sent = "build_request_sent stalled_world ''packages.json'' ?url"
  note loop = polling_loop
    [where w = polling_world and url = presigned_url and e = 0 and r = ?ready
       and w' = "polled polling_world presigned_url 0 2" and ?r1.0 = ?busy]
  note stuck = polling_loop
    [where w = never_ready_world and url = presigned_url and e = 0]
  note published = polling_loop
    [where v = "remote_world 200 2 (Some ''300'')" and p = "''packages.json''"
       and ln = demo_name and d = demo_description and cr = demo_runtimes and li = PNone
       and res = "Inr ()" and v' = ?final and req = ?req]
  note stalled = polling_loop
    [where v = stalled_world and p = "''packages.json''"
       and ln = demo_name and d = demo_description and cr = demo_runtimes and li = PNone
       and arch = "''x86_64''" and runtime = "''py38''" and ps = "''a&b&c''" and nd = "IsInt 0"
       and ?v1.0 = "emit (FsOpen ''packages.json'') stalled_world" and ?r0.0 = ?first
       and ?v2.0 = ?sent]
  have busy: "network polling_world (requests_sent polling_world) presigned_url = Some ?busy"
    by (simp add: remote_eval)
  have still: "still_downloading 5 = ''still downloading packages... 5s elapsed''"
    by code_simp
  have run: "create_from_packages (remote_world 200 2 (Some ''300'')) ''packages.json''
       demo_name demo_description demo_runtimes PNone = Some (Inr (), ?final)"
    by (simp add: run_ready int_150)
  have pub: "Publish ?req \<in> set (trace ?final) \<and>
      Publish ?req \<notin> set (trace (remote_world 200 2 (Some ''300'')))"
    by (simp add: emit_def remote_eval)
  have never: "\<forall>k. \<exists>r. network never_ready_world (requests_sent never_ready_world + k) presigned_url
      = Some r \<and> status_code r \<noteq> 200"
    by (simp add: remote_eval)
  have ne: "status_code ?busy \<noteq> 200"
    by simp
  have sparse: "parse_packages_json stalled_world ''packages.json''
      = (Inr (''x86_64'', ''py38'', ''a&b&c'', IsInt 0), emit (FsOpen ''packages.json'') stalled_world)"
    by (rule demo_parse) (simp_all add: stalled_world_def demo_world_def)
  have sget: "requests_get (emit (FsOpen ''packages.json'') stalled_world) ?url = (Inr ?first, ?sent)"
    by (simp add: first_request stalled_world_def demo_world_def)
  have sok: "200 \<le> status_code ?first \<and> status_code ?first < 300"
    by simp
  have snever: "\<forall>k. \<exists>r. network ?sent (requests_sent ?sent + k) (body_text ?first) = Some r
      \<and> status_code r \<noteq> 200"
    by (simp add: build_request_sent_def stalled_world_def demo_world_def)
  have c1: "status_code ?ready = 200 \<and>
      (\<exists>k. network polling_world (requests_sent polling_world + k) presigned_url = Some ?ready \<and>
           still_building polling_world presigned_url k \<and>
           polled polling_world presigned_url 0 2 = polled polling_world presigned_url 0 k)"
    by (rule loop [THEN conjunct1, THEN mp, OF polling_world_run])
  have c2: "wait_for_download polling_world presigned_url 0
       = wait_for_download (retry_world polling_world presigned_url 0) presigned_url (0 + 5) \<and>
     trace (retry_world polling_world presigned_url 0)
       = trace polling_world @ [HttpGet presigned_url, Sleep 5, LogInfo (still_downloading (0 + 5))]"
    by (rule loop [THEN conjunct2, THEN conjunct1, THEN mp, OF conjI [OF busy ne]])
  have c3: "wait_for_download never_ready_world presigned_url 0 = None"
    by (rule stuck [THEN conjunct2, THEN conjunct2, THEN conjunct1, THEN mp, OF never])
  have c4: "\<exists>arch runtime ps nd v1 r0 v2 r2 v3 k.
       parse_packages_json (remote_world 200 2 (Some ''300'')) ''packages.json''
         = (Inr (arch, runtime, ps, nd), v1) \<and>
       requests_get v1 (request_url arch runtime ps nd) = (Inr r0, v2) \<and>
       wait_for_download v2 (body_text r0) 0 = Some (Inr r2, v3) \<and>
       status_code r2 = 200 \<and>
       network v2 (requests_sent v2 + k) (body_text r0) = Some r2 \<and>
       still_building v2 (body_text r0) k"
    by (rule published [THEN conjunct2, THEN conjunct2, THEN conjunct2, THEN conjunct1, THEN mp,
          OF conjI [OF run disjI1 [OF pub]]])
  have c5: "create_from_packages stalled_world ''packages.json''
       demo_name demo_description demo_runtimes PNone = None"
    by (rule stalled [THEN conjunct2, THEN conjunct2, THEN conjunct2, THEN conjunct2, THEN mp,
          OF conjI [OF sparse conjI [OF sget conjI [OF sok [THEN conjunct1]
               conjI [OF sok [THEN conjunct2] snever]]]]])
  have t0: "trace polling_world = []"
    by (simp add: remote_eval)
  from c1 have c1': "\<exists>k. still_building polling_world presigned_url k \<and>
        polled polling_world presigned_url 0 2 = polled polling_world presigned_url 0 k"
    by blast
  from c2 t0 still have c2': "wait_for_download polling_world presigned_url 0
       = wait_for_download (retry_world polling_world presigned_url 0) presigned_url 5"
    "trace (retry_world polling_world presigned_url 0)
       = [HttpGet presigned_url, Sleep 5, LogInfo ''still downloading packages... 5s elapsed'']"
    by simp_all
  have c0: "status_code ?ready = 200"
    by simp
  show ?thesis
    by (rule conjI [OF c0 conjI [OF c1' conjI [OF busy conjI [OF c2'(1) conjI [OF c2'(2)
          conjI [OF c3 conjI [OF c4 c5]]]]]]])
qed

subsection \<open>When the remote build raises a CreateLayerError\<close>

text \<open>
  C5: in the body of \<open>if packages:\<close> a \<open>LamblayerCreateLayerError\<close> is raised exactly
  when the packages configuration was parsed, the build request was answered, and
  either the answer's status is outside 200..299, or the polling loop returned a
  response (its status is 200) whose \<open>Content-Length\<close> header is an integer below
  200. A \<open>Content-Length\<close> of 200 or more therefore never raises it. In the first case
  the command stops after the build request: the only events are the read of the
  configuration and that request, so nothing is published.
\<close>

theorem create_layer_error_iff:
  "((\<exists>m w'. create_from_packages w p ln d cr li = Some (Inl (LamblayerCreateLayerError m), w')) \<longleftrightarrow>
    (\<exists>arch runtime ps nd w1 r0 w2.
       parse_packages_json w p = (Inr (arch, runtime, ps, nd), w1) \<and>
       requests_get w1 (request_url arch runtime ps nd) = (Inr r0, w2) \<and>
       (\<not> (200 \<le> status_code r0 \<and> status_code r0 < 300) \<or>
        (\<exists>r w3 n. wait_for_download w2 (body_text r0) 0 = Some (Inr r, w3) \<and>
           status_code r = 200 \<and>
           py_int (headers_get r ''Content-Length'') = Inr n \<and> n < 200)))) \<and>
   (parse_packages_json w p = (Inr (arch, runtime, ps, nd), w1) \<and>
    requests_get w1 (request_url arch runtime ps nd) = (Inr r0, w2) \<and>
    \<not> (200 \<le> status_code r0 \<and> status_code r0 < 300) \<longrightarrow>
      (\<exists>m. create_from_packages w p ln d cr li = Some (Inl (LamblayerCreateLayerError m), w2)) \<and>
      trace w2 = trace w @ [FsOpen p, HttpGet (request_url arch runtime ps nd)])"
proof -
  have fwd: "\<exists>arch runtime ps nd w1 r0 w2.
       parse_packages_json w p = (Inr (arch, runtime, ps, nd), w1) \<and>
       requests_get w1 (request_url arch runtime ps nd) = (Inr r0, w2) \<and>
       (\<not> (200 \<le> status_code r0 \<and> status_code r0 < 300) \<or>
        (\<exists>r w3 n. wait_for_download w2 (body_text r0) 0 = Some (Inr r, w3) \<and>
           status_code r = 200 \<and>
           py_int (headers_get r ''Content-Length'') = Inr n \<and> n < 200))"
    if run: "create_from_packages w p ln d cr li = Some (Inl (LamblayerCreateLayerError m), w')"
    for m w'
  proof -
    obtain pr w1 where parse: "parse_packages_json w p = (pr, w1)"
      by (cases "parse_packages_json w p")
    show ?thesis
    proof (cases pr)
      case (Inl e)
      with parse run cfp_parse_fail [of w p e w1 ln d cr li] parse_packages_json_error [of w p e w1]
      show ?thesis by auto
    next
      case (Inr cfg)
      obtain arch runtime ps nd where cfg: "cfg = (arch, runtime, ps, nd)"
        by (cases cfg) auto
      note parse' = parse [unfolded Inr cfg]
      obtain rr w2 where get: "requests_get w1 (request_url arch runtime ps nd) = (rr, w2)"
        by (cases "requests_get w1 (request_url arch runtime ps nd)")
      show ?thesis
      proof (cases rr)
        case (Inl e)
        with get run cfp_get_fail [OF parse', of e w2 ln d cr li]
          requests_get_error [of w1 "request_url arch runtime ps nd" e w2]
        show ?thesis by auto
      next
        case (Inr r0)
        note get' = get [unfolded Inr]
        show ?thesis
        proof (cases "200 \<le> status_code r0 \<and> status_code r0 < 300")
          case False
          with parse' get' show ?thesis by blast
        next
          case True
          from cfp_ready_error [OF parse' get' True run]
          obtain r w3 n where "wait_for_download w2 (body_text r0) 0 = Some (Inr r, w3)"
            "py_int (headers_get r ''Content-Length'') = Inr n" "n < 200"
            by blast
          with wait_ready [of w2 "body_text r0" 0 r w3] parse' get' show ?thesis
            by blast
        qed
      qed
    qed
  qed
  have bwd: "\<exists>m w'. create_from_packages w p ln d cr li = Some (Inl (LamblayerCreateLayerError m), w')"
    if parse: "parse_packages_json w p = (Inr (arch, runtime, ps, nd), w1)"
      and get: "requests_get w1 (request_url arch runtime ps nd) = (Inr r0, w2)"
      and why: "\<not> (200 \<le> status_code r0 \<and> status_code r0 < 300) \<or>
        (\<exists>r w3 n. wait_for_download w2 (body_text r0) 0 = Some (Inr r, w3) \<and>
           status_code r = 200 \<and>
           py_int (headers_get r ''Content-Length'') = Inr n \<and> n < 200)"
    for arch runtime ps nd w1 r0 w2
  proof (cases "200 \<le> status_code r0 \<and> status_code r0 < 300")
    case False
    from cfp_not_2xx [OF parse get False] show ?thesis by blast
  next
    case True
    with why obtain r w3 n where "wait_for_download w2 (body_text r0) 0 = Some (Inr r, w3)"
      "py_int (headers_get r ''Content-Length'') = Inr n" "n < 200"
      by blast
    with cfp_polling [OF parse get True, of ln d cr li] show ?thesis
      by simp
  qed
  have no_publish: "parse_packages_json w p = (Inr (arch, runtime, ps, nd), w1) \<and>
    requests_get w1 (request_url arch runtime ps nd) = (Inr r0, w2) \<and>
    \<not> (200 \<le> status_code r0 \<and> status_code r0 < 300) \<longrightarrow>
      (\<exists>m. create_from_packages w p ln d cr li = Some (Inl (LamblayerCreateLayerError m), w2)) \<and>
      trace w2 = trace w @ [FsOpen p, HttpGet (request_url arch runtime ps nd)]"
  proof
    assume h: "parse_packages_json w p = (Inr (arch, runtime, ps, nd), w1) \<and>
      requests_get w1 (request_url arch runtime ps nd) = (Inr r0, w2) \<and>
      \<not> (200 \<le> status_code r0 \<and> status_code r0 < 300)"
    then have "create_from_packages w p ln d cr li
       = Some (Inl (LamblayerCreateLayerError
           ''Something went wrong..., Please contact with higuchi@adansons.co.jp''), w2)"
      using cfp_not_2xx by blast
    moreover have "trace w2 = trace w @ [FsOpen p, HttpGet (request_url arch runtime ps nd)]"
    proof -
      from h parse_packages_json_world [of w p] have "w1 = emit (FsOpen p) w"
        by simp
      moreover from h requests_get_world [of w1 "request_url arch runtime ps nd"]
      have "w2 = emit (HttpGet (request_url arch runtime ps nd)) (w1\<lparr>requests_sent := Suc (requests_sent w1)\<rparr>)"
        by simp
      ultimately show ?thesis
        by (simp add: emit_def)
    qed
    ultimately show "(\<exists>m. create_from_packages w p ln d cr li = Some (Inl (LamblayerCreateLayerError m), w2)) \<and>
      trace w2 = trace w @ [FsOpen p, HttpGet (request_url arch runtime ps nd)]"
      by blast
  qed
  from fwd bwd have iff: "(\<exists>m w'. create_from_packages w p ln d cr li = Some (Inl (LamblayerCreateLayerError m), w')) \<longleftrightarrow>
    (\<exists>arch runtime ps nd w1 r0 w2.
       parse_packages_json w p = (Inr (arch, runtime, ps, nd), w1) \<and>
       requests_get w1 (request_url arch runtime ps nd) = (Inr r0, w2) \<and>
       (\<not> (200 \<le> status_code r0 \<and> status_code r0 < 300) \<or>
        (\<exists>r w3 n. wait_for_download w2 (body_text r0) 0 = Some (Inr r, w3) \<and>
           status_code r = 200 \<and>
           py_int (headers_get r ''Content-Length'') = Inr n \<and> n < 200)))"
    by blast
  show ?thesis
    by (rule conjI [OF iff no_publish])
qed

theorem create_layer_error_iff_witness:
  "(\<exists>m. create_from_packages (remote_world 404 0 None) ''packages.json''
          demo_name demo_description demo_runtimes PNone
        = Some (Inl (LamblayerCreateLayerError m), sent_world 404 0 None)) \<and>
   trace (sent_world 404 0 None)
     = [FsOpen ''packages.json'',
        HttpGet ''https://layerzip.higuchi.work/x86_64/py38/a&b&c?no-deps=0''] \<and>
   (\<exists>m w'. create_from_packages (remote_world 200 2 (Some ''150'')) ''packages.json''
          demo_name demo_description demo_runtimes PNone
        = Some (Inl (LamblayerCreateLayerError m), w')) \<and>
   create_from_packages (remote_world 200 2 (Some ''300'')) ''packages.json''
          demo_name demo_description demo_runtimes PNone
     = Some (Inr (),
         emit (Publish \<lparr>LayerName = demo_name, Description = demo_description,
                 Content = S3Object ''layerzip-bucket'' ''layers/demo.zip?X-Amz-Expires=300'',
                 CompatibleRuntimes = demo_runtimes, LicenseInfo = PNone\<rparr>)
           (polled (sent_world 200 2 (Some ''300'')) presigned_url 0 2))"
proof -
  let ?first = "\<lambda>s. \<lparr>status_code = s, body_text = presigned_url,
       headers_get = (\<lambda>h. None) :: string \<Rightarrow> string option\<rparr>"
  note refused = create_layer_error_iff
    [of "remote_world 404 0 None" "''packages.json''" demo_name demo_description demo_runtimes PNone
        "''x86_64''" "''py38''" "''a&b&c''" "IsInt 0"
        "emit (FsOpen ''packages.json'') (remote_world 404 0 None)" "?first 404"
        "sent_world 404 0 None", THEN conjunct2]
  note small = create_layer_error_iff
    [of "remote_world 200 2 (Some ''150'')" "''packages.json''" demo_name demo_description demo_runtimes PNone
        "''x86_64''" "''py38''" "''a&b&c''" "IsInt 0"
        "emit (FsOpen ''packages.json'') (remote_world 200 2 (Some ''150''))" "?first 200"
        "sent_world 200 2 (Some ''150'')", THEN conjunct1]
  have a: "(\<exists>m. create_from_packages (remote_world 404 0 None) ''packages.json''
          demo_name demo_description demo_runtimes PNone
        = Some (Inl (LamblayerCreateLayerError m), sent_world 404 0 None)) \<and>
     trace (sent_world 404 0 None)
       = trace (remote_world 404 0 None) @ [FsOpen ''packages.json'',
            HttpGet (request_url ''x86_64'' ''py38'' ''a&b&c'' (IsInt 0))]"
    using refused remote_parse [of 404 0 None] remote_get [of 404 0 None] by simp
  have "\<exists>arch runtime ps nd w1 r0 w2.
       parse_packages_json (remote_world 200 2 (Some ''150'')) ''packages.json''
         = (Inr (arch, runtime, ps, nd), w1) \<and>
       requests_get w1 (request_url arch runtime ps nd) = (Inr r0, w2) \<and>
       (\<not> (200 \<le> status_code r0 \<and> status_code r0 < 300) \<or>
        (\<exists>r w3 n. wait_for_download w2 (body_text r0) 0 = Some (Inr r, w3) \<and>
           status_code r = 200 \<and>
           py_int (headers_get r ''Content-Length'') = Inr n \<and> n < 200))"
    apply (intro exI conjI)
      apply (rule remote_parse)
     apply (rule remote_get)
    apply (rule disjI2)
    apply (intro exI [of _ 150] exI conjI)
       apply (simp add: remote_wait)
      apply simp
     apply (simp add: int_150)
    apply simp
    done
  with small have b: "\<exists>m w'. create_from_packages (remote_world 200 2 (Some ''150'')) ''packages.json''
          demo_name demo_description demo_runtimes PNone
        = Some (Inl (LamblayerCreateLayerError m), w')"
    by blast
  have c: "trace (remote_world 404 0 None) = []"
    by (simp add: remote_eval)
  from a b c show ?thesis
    by (simp add: run_ready int_150 url_demo)
qed

subsection \<open>The size check without a usable Content-Length\<close>

text \<open>
  C10: when the response that ended the polling loop has no \<open>Content-Length\<close> header,
  \<open>int(None)\<close> raises \<open>TypeError\<close> and the command ends with it, not with a
  \<open>LamblayerCreateLayerError\<close>; a header that does not spell an integer ends it with
  \<open>ValueError\<close> likewise. The comparison with 200 is reached only with a header that
  is present and spells an integer.
\<close>

theorem size_check_needs_content_length:
  "parse_packages_json w p = (Inr (arch, runtime, ps, nd), w1) \<and>
   requests_get w1 (request_url arch runtime ps nd) = (Inr r0, w2) \<and>
   200 \<le> status_code r0 \<and> status_code r0 < 300 \<and>
   wait_for_download w2 (body_text r0) 0 = Some (Inr r, w3) \<longrightarrow>
     (headers_get r ''Content-Length'' = None \<longrightarrow>
        create_from_packages w p ln d cr li = Some (Inl TypeError, w3)) \<and>
     (\<forall>s. headers_get r ''Content-Length'' = Some s \<and> int_of_str s = Inl ValueError \<longrightarrow>
        create_from_packages w p ln d cr li = Some (Inl ValueError, w3))"
proof
  assume h: "parse_packages_json w p = (Inr (arch, runtime, ps, nd), w1) \<and>
   requests_get w1 (request_url arch runtime ps nd) = (Inr r0, w2) \<and>
   200 \<le> status_code r0 \<and> status_code r0 < 300 \<and>
   wait_for_download w2 (body_text r0) 0 = Some (Inr r, w3)"
  then have run: "create_from_packages w p ln d cr li
     = (case py_int (headers_get r ''Content-Length'') of
          Inl e \<Rightarrow> Some (Inl e, w3)
        | Inr n \<Rightarrow>
            if n < 200 then
              Some (Inl (LamblayerCreateLayerError
                ''Something went wrong..., Please check the pakcage name and version again.''), w3)
            else
              (case s3_bucket_of (body_text r0) of
                 Inl e \<Rightarrow> Some (Inl e, w3)
               | Inr s3_bucket \<Rightarrow>
              (case s3_key_of (body_text r0) of
                 Inl e \<Rightarrow> Some (Inl e, w3)
               | Inr s3_key \<Rightarrow>
              (case publish_layer_version w3
                      \<lparr>LayerName = ln, Description = d,
                       Content = S3Object s3_bucket s3_key,
                       CompatibleRuntimes = cr, LicenseInfo = li\<rparr> of
                 (Inl e, w4) \<Rightarrow> Some (Inl e, w4)
               | (Inr layer_version_arn, w4) \<Rightarrow> Some (Inr (), w4)))))"
    using cfp_polling [of w p arch runtime ps nd w1 r0 w2 ln d cr li] by simp
  show "(headers_get r ''Content-Length'' = None \<longrightarrow>
        create_from_packages w p ln d cr li = Some (Inl TypeError, w3)) \<and>
     (\<forall>s. headers_get r ''Content-Length'' = Some s \<and> int_of_str s = Inl ValueError \<longrightarrow>
        create_from_packages w p ln d cr li = Some (Inl ValueError, w3))"
    by (simp add: run)
qed

theorem size_check_needs_content_length_witness:
  "create_from_packages (remote_world 200 2 None) ''packages.json''
       demo_name demo_description demo_runtimes PNone
     = Some (Inl TypeError, polled (sent_world 200 2 None) presigned_url 0 2) \<and>
   create_from_packages (remote_world 200 2 (Some ''12 kB'')) ''packages.json''
       demo_name demo_description demo_runtimes PNone
     = Some (Inl ValueError, polled (sent_world 200 2 (Some ''12 kB'')) presigned_url 0 2)"
proof -
  let ?first = "\<lparr>status_code = 200, body_text = presigned_url,
       headers_get = (\<lambda>h. None) :: string \<Rightarrow> string option\<rparr>"
  let ?ready = "\<lambda>cl. \<lparr>status_code = 200, body_text = [],
       headers_get = (\<lambda>h. if h = ''Content-Length'' then cl else None)\<rparr>"
  note absent = size_check_needs_content_length
    [of "remote_world 200 2 None" "''packages.json''"
        "''x86_64''" "''py38''" "''a&b&c''" "IsInt 0"
        "emit (FsOpen ''packages.json'') (remote_world 200 2 None)" ?first
        "sent_world 200 2 None" "?ready None"
        "polled (sent_world 200 2 None) presigned_url 0 2"
        demo_name demo_description demo_runtimes PNone]
  note garbled = size_check_needs_content_length
    [of "remote_world 200 2 (Some ''12 kB'')" "''packages.json''"
        "''x86_64''" "''py38''" "''a&b&c''" "IsInt 0"
        "emit (FsOpen ''packages.json'') (remote_world 200 2 (Some ''12 kB''))" ?first
        "sent_world 200 2 (Some ''12 kB'')" "?ready (Some ''12 kB'')"
        "polled (sent_world 200 2 (Some ''12 kB'')) presigned_url 0 2"
        demo_name demo_description demo_runtimes PNone]
  have v: "int_of_str ''12 kB'' = Inl ValueError"
    by (simp add: int_of_str_def py_strip_def py_isspace_def parse_digits_def py_isdigit_def
          digit_value_def)
  from absent remote_parse [of 200 2 None] remote_get [of 200 2 None] remote_wait [of 200 2 None]
  have "create_from_packages (remote_world 200 2 None) ''packages.json''
       demo_name demo_description demo_runtimes PNone
     = Some (Inl TypeError, polled (sent_world 200 2 None) presigned_url 0 2)"
    by simp
  moreover
  from garbled v remote_parse [of 200 2 "Some ''12 kB''"] remote_get [of 200 2 "Some ''12 kB''"]
    remote_wait [of 200 2 "Some ''12 kB''"]
  have "create_from_packages (remote_world 200 2 (Some ''12 kB'')) ''packages.json''
       demo_name demo_description demo_runtimes PNone
     = Some (Inl ValueError, polled (sent_world 200 2 (Some ''12 kB'')) presigned_url 0 2)"
    by simp
  ultimately show ?thesis
    by simp
qed

subsection \<open>Exactly one of packages and src\<close>

lemma mkdirs_error: "mkdirs fs cur cs = Inl e \<Longrightarrow> \<not> is_lamblayer_error e"
  by (induction cs arbitrary: fs cur) (auto split: option.splits node.splits if_splits)

lemma os_makedirs_error: "os_makedirs fs cwd name = Inl e \<Longrightarrow> \<not> is_lamblayer_error e"
  by (auto simp: os_makedirs_def Let_def split: if_splits dest: mkdirs_error)

lemma shutil_copytree_error: "shutil_copytree fs cwd src dst = (Some e, fs') \<Longrightarrow> \<not> is_lamblayer_error e"
  by (auto simp: shutil_copytree_def Let_def split: sum.splits prod.splits if_splits
           dest: lookup_error os_makedirs_error)

lemma shutil_make_archive_error:
  "shutil_make_archive fs cwd base root = (Some e, fs') \<Longrightarrow> \<not> is_lamblayer_error e"
  by (auto simp: shutil_make_archive_def Let_def map_sum_def
           split: sum.splits prod.splits if_splits option.splits node.splits
           dest: lookup_error os_makedirs_error resolve_error)

lemma shutil_rmtree_error: "shutil_rmtree fs cwd name = Inl e \<Longrightarrow> \<not> is_lamblayer_error e"
  by (auto simp: shutil_rmtree_def split: sum.splits prod.splits if_splits dest: lookup_error)

lemma create_ziparchive_error:
  "create_ziparchive w src wd1 wd2 = (Inl e, w') \<Longrightarrow> \<not> is_lamblayer_error e"
  by (auto simp: create_ziparchive_def Let_def copytree_def make_archive_def open_read_def rmtree_def
           split: prod.splits option.splits sum.splits
           dest: shutil_copytree_error shutil_make_archive_error read_file_error shutil_rmtree_error)

lemma create_from_src_error:
  "create_from_src w src wd1 wd2 ln d cr li = (Inl e, w') \<Longrightarrow> \<not> is_lamblayer_error e"
  by (auto simp: create_from_src_def split: prod.splits sum.splits
           dest: create_ziparchive_error publish_error)

lemma create_from_packages_error:
  assumes "create_from_packages w p ln d cr li = Some (Inl e, w')"
  shows "\<forall>m. e \<noteq> LamblayerInvalidOptionError m"
proof -
  obtain pr w1 where parse: "parse_packages_json w p = (pr, w1)"
    by (cases "parse_packages_json w p")
  show ?thesis
  proof (cases pr)
    case (Inl e1)
    with parse assms cfp_parse_fail [of w p e1 w1 ln d cr li] parse_packages_json_error [of w p e1 w1]
    show ?thesis by auto
  next
    case (Inr cfg)
    obtain arch runtime ps nd where cfg: "cfg = (arch, runtime, ps, nd)"
      by (cases cfg) auto
    note parse' = parse [unfolded Inr cfg]
    obtain rr w2 where get: "requests_get w1 (request_url arch runtime ps nd) = (rr, w2)"
      by (cases "requests_get w1 (request_url arch runtime ps nd)")
    show ?thesis
    proof (cases rr)
      case (Inl e1)
      with get assms cfp_get_fail [OF parse', of e1 w2 ln d cr li]
        requests_get_error [of w1 "request_url arch runtime ps nd" e1 w2]
      show ?thesis by auto
    next
      case (Inr r0)
      note get' = get [unfolded Inr]
      show ?thesis
      proof (cases "200 \<le> status_code r0 \<and> status_code r0 < 300")
        case False
        from cfp_not_2xx [OF parse' get' False, of ln d cr li] assms show ?thesis
          by auto
      next
        case True
        obtain b where b: "s3_bucket_of (body_text r0) = Inr b"
          using s3_bucket_of_total by blast
        obtain k where k: "s3_key_of (body_text r0) = Inr k"
          using s3_key_of_total by blast
        from assms [unfolded cfp_polling [OF parse' get' True]] b k show ?thesis
          by (auto split: option.splits prod.splits sum.splits if_splits
                   dest: wait_error py_int_error publish_error)
      qed
    qed
  qed
qed

text \<open>
  C8: when \<open>packages\<close> and \<open>src\<close> are both given or both missing (\<open>None\<close> or the empty
  string, which Python takes as false), \<open>create\<close> raises \<open>LamblayerInvalidOptionError\<close>
  and the world it returns is the world it started in: no file was opened, no request
  sent, no event recorded. When exactly one is given, no run of \<open>create\<close> ends with
  that exception.
\<close>

theorem exactly_one_source:
  "(truthy packages = truthy src \<longrightarrow>
      (\<exists>m. create w packages src wrap_dir1 wrap_dir2 layer_path
             = Some (Inl (LamblayerInvalidOptionError m), w))) \<and>
   (truthy packages \<noteq> truthy src \<longrightarrow>
      (\<forall>m w'. create w packages src wrap_dir1 wrap_dir2 layer_path
             \<noteq> Some (Inl (LamblayerInvalidOptionError m), w')))"
proof (rule conjI)
  show "truthy packages = truthy src \<longrightarrow>
      (\<exists>m. create w packages src wrap_dir1 wrap_dir2 layer_path
             = Some (Inl (LamblayerInvalidOptionError m), w))"
    by (auto simp: create_def new_LamblayerInvalidOptionError_def)
next
  show "truthy packages \<noteq> truthy src \<longrightarrow>
      (\<forall>m w'. create w packages src wrap_dir1 wrap_dir2 layer_path
             \<noteq> Some (Inl (LamblayerInvalidOptionError m), w'))"
  proof (intro impI allI notI)
    fix m w'
    assume one: "truthy packages \<noteq> truthy src"
      and run: "create w packages src wrap_dir1 wrap_dir2 layer_path
             = Some (Inl (LamblayerInvalidOptionError m), w')"
    obtain lr w1 where layer: "parse_create_layer_json w layer_path = (lr, w1)"
      by (cases "parse_create_layer_json w layer_path")
    show False
    proof (cases lr)
      case (Inl e)
      with one run layer parse_create_layer_json_error [of w layer_path e w1] show False
        by (auto simp: create_def)
    next
      case (Inr meta)
      obtain ln d cr li where meta: "meta = (ln, d, cr, li)"
        by (cases meta) auto
      show False
      proof (cases "truthy src")
        case True
        with one have "\<not> truthy packages" by simp
        with True run layer Inr meta show False
          by (auto simp: create_def split: prod.splits sum.splits dest: create_from_src_error)
      next
        case False
        with one have "truthy packages" by simp
        with False run layer Inr meta show False
          by (auto simp: create_def dest: create_from_packages_error)
      qed
    qed
  qed
qed


theorem exactly_one_source_witness:
  "(\<exists>m. create demo_world (Some ''packages.json'') (Some ''src'') ''python'' [] ''layer.json''
         = Some (Inl (LamblayerInvalidOptionError m), demo_world)) \<and>
   (\<exists>m. create demo_world None (Some []) ''python'' [] ''layer.json''
         = Some (Inl (LamblayerInvalidOptionError m), demo_world)) \<and>
   (\<forall>m w'. create demo_world None (Some ''src'') ''python'' [] ''layer.json''
         \<noteq> Some (Inl (LamblayerInvalidOptionError m), w')) \<and>
   (\<forall>m w'. create demo_world (Some ''packages.json'') None ''python'' [] ''layer.json''
         \<noteq> Some (Inl (LamblayerInvalidOptionError m), w'))"
  using exactly_one_source [of "Some ''packages.json''" "Some ''src''" demo_world "''python''" "[]" "''layer.json''"]
    exactly_one_source [of None "Some []" demo_world "''python''" "[]" "''layer.json''"]
    exactly_one_source [of None "Some ''src''" demo_world "''python''" "[]" "''layer.json''"]
    exactly_one_source [of "Some ''packages.json''" None demo_world "''python''" "[]" "''layer.json''"]
  by simp

subsection \<open>The packages of the request URL\<close>

lemma str_items_map: "str_items (map PStr names) = Some names"
  by (induction names) auto

lemma polled_trace: "trace (polled w url e k) = trace w @ poll_events url e k @ [HttpGet url]"
  by (simp add: polled_def)

lemma create_from_packages_requests_url:
  assumes parse: "parse_packages_json w p = (Inr (arch, runtime, ps, nd), w1)"
      and run: "create_from_packages w p ln d cr li = Some (res, w')"
  shows "\<exists>rest. trace w' = trace w @ [FsOpen p, HttpGet (request_url arch runtime ps nd)] @ rest"
proof -
  let ?url = "request_url arch runtime ps nd"
  obtain rr w2 where get: "requests_get w1 ?url = (rr, w2)"
    by (cases "requests_get w1 ?url")
  from parse parse_packages_json_world [of w p] have "w1 = emit (FsOpen p) w"
    by simp
  moreover from get requests_get_world [of w1 ?url]
  have "w2 = emit (HttpGet ?url) (w1\<lparr>requests_sent := Suc (requests_sent w1)\<rparr>)"
    by simp
  ultimately have w2: "trace w2 = trace w @ [FsOpen p, HttpGet ?url]"
    by (simp add: emit_def)
  show ?thesis
  proof (cases rr)
    case (Inl e)
    with get run cfp_get_fail [OF parse, of e w2 ln d cr li] w2 show ?thesis
      by auto
  next
    case (Inr r0)
    note get' = get [unfolded Inr]
    show ?thesis
    proof (cases "200 \<le> status_code r0 \<and> status_code r0 < 300")
      case False
      from cfp_not_2xx [OF parse get' False, of ln d cr li] run w2 show ?thesis
        by auto
    next
      case True
      note run' = run [unfolded cfp_polling [OF parse get' True]]
      then obtain y where y: "wait_for_download w2 (body_text r0) 0 = Some y"
        by (cases "wait_for_download w2 (body_text r0) 0") auto
      from wait_sound [OF y] obtain k where k: "snd y = polled w2 (body_text r0) 0 k"
        by blast
      obtain yr w3 where yy: "y = (yr, w3)"
        by (cases y)
      with k polled_trace [of w2 "body_text r0" 0 k] w2
      have w3: "trace w3 = trace w @ [FsOpen p, HttpGet ?url] @ poll_events (body_text r0) 0 k @ [HttpGet (body_text r0)]"
        by simp
      from run' y yy have "w' = w3 \<or> (\<exists>req. w' = emit (Publish req) w3)"
        by (auto simp: publish_layer_version_def split: sum.splits if_splits prod.splits)
      with w3 show ?thesis
        by (auto simp: emit_def)
    qed
  qed
qed

text \<open>
  C6: for a packages configuration file whose \<open>Packages\<close> is a list of strings (and
  whose other fields pass their checks), \<open>_parse_packages_json\<close> returns the strings
  joined with \<open>&\<close>, and \<open>create\<close> sends its build request to
  \<open>https://layerzip.higuchi.work/<arch>/<runtime>/<packages>?no-deps=<flag>\<close>, whatever
  happens afterwards. If the request raises, or is answered with a status outside
  200..299, the command ends in the world in which exactly the configuration was read
  and that URL requested. If it is answered with a status in 200..299, the command
  polls from that world on: it returns if and only if the polling loop started there
  returns, and the events of every run that returns begin with the read and the
  request.
\<close>

theorem packages_joined_into_request_url:
  assumes "read_file (filesys w) (workdir w) packages = Inr (JsonDoc (PDict kvs))"
    and "map_of kvs ''Arch'' = Some (PStr arch)"
    and "map_of kvs ''Runtime'' = Some (PStr runtime)"
    and "map_of kvs ''Packages'' = Some (PList (map PStr names))"
    and "as_int (case map_of kvs ''No_deps'' of None \<Rightarrow> PInt 0 | Some v \<Rightarrow> v) = Some flag"
    and "url = ''https://layerzip.higuchi.work/'' @ arch @ ''/'' @ runtime @ ''/''
                 @ intercalate ''&'' names @ ''?no-deps='' @ format_flag flag"
  shows "parse_packages_json w packages
           = (Inr (arch, runtime, intercalate ''&'' names, flag), emit (FsOpen packages) w) \<and>
         (network w (requests_sent w) url = None \<longrightarrow>
            create_from_packages w packages ln d cr li
              = Some (Inl RequestException, build_request_sent w packages url)) \<and>
         (\<forall>r0. network w (requests_sent w) url = Some r0 \<longrightarrow>
            (\<not> (200 \<le> status_code r0 \<and> status_code r0 < 300) \<longrightarrow>
               create_from_packages w packages ln d cr li
                 = Some (Inl (LamblayerCreateLayerError
                      ''Something went wrong..., Please contact with higuchi@adansons.co.jp''),
                    build_request_sent w packages url)) \<and>
            (200 \<le> status_code r0 \<and> status_code r0 < 300 \<longrightarrow>
               (create_from_packages w packages ln d cr li = None \<longleftrightarrow>
                  wait_for_download (build_request_sent w packages url) (body_text r0) 0 = None) \<and>
               (\<forall>res w'. create_from_packages w packages ln d cr li = Some (res, w') \<longrightarrow>
                  (\<exists>rest. trace w' = trace w @ [FsOpen packages, HttpGet url] @ rest))))"
proof -
  have check: "check_packages_config (PDict kvs) = Inr (arch, runtime, intercalate ''&'' names, flag)"
    using assms(2-5) by (simp add: check_packages_config_def py_join_def str_items_map)
  with assms(1) have parse: "parse_packages_json w packages
      = (Inr (arch, runtime, intercalate ''&'' names, flag), emit (FsOpen packages) w)"
    by (simp add: parse_packages_json_def json_load_def open_read_def)
  have url: "request_url arch runtime (intercalate ''&'' names) flag = url"
    by (simp add: request_url_def assms(6))
  note get = first_request [of packages w url]
  have down: "network w (requests_sent w) url = None \<longrightarrow>
      create_from_packages w packages ln d cr li
        = Some (Inl RequestException, build_request_sent w packages url)"
  proof
    assume "network w (requests_sent w) url = None"
    with get have "requests_get (emit (FsOpen packages) w) (request_url arch runtime (intercalate ''&'' names) flag)
        = (Inl RequestException, build_request_sent w packages url)"
      by (simp add: url)
    from cfp_get_fail [OF parse this] show "create_from_packages w packages ln d cr li
        = Some (Inl RequestException, build_request_sent w packages url)" .
  qed
  have answered: "(\<not> (200 \<le> status_code r0 \<and> status_code r0 < 300) \<longrightarrow>
               create_from_packages w packages ln d cr li
                 = Some (Inl (LamblayerCreateLayerError
                      ''Something went wrong..., Please contact with higuchi@adansons.co.jp''),
                    build_request_sent w packages url)) \<and>
            (200 \<le> status_code r0 \<and> status_code r0 < 300 \<longrightarrow>
               (create_from_packages w packages ln d cr li = None \<longleftrightarrow>
                  wait_for_download (build_request_sent w packages url) (body_text r0) 0 = None) \<and>
               (\<forall>res w'. create_from_packages w packages ln d cr li = Some (res, w') \<longrightarrow>
                  (\<exists>rest. trace w' = trace w @ [FsOpen packages, HttpGet url] @ rest)))"
    if r0: "network w (requests_sent w) url = Some r0" for r0
  proof -
    from get r0 have g: "requests_get (emit (FsOpen packages) w) (request_url arch runtime (intercalate ''&'' names) flag)
        = (Inr r0, build_request_sent w packages url)"
      by (simp add: url)
    have a: "\<not> (200 \<le> status_code r0 \<and> status_code r0 < 300) \<longrightarrow>
               create_from_packages w packages ln d cr li
                 = Some (Inl (LamblayerCreateLayerError
                      ''Something went wrong..., Please contact with higuchi@adansons.co.jp''),
                    build_request_sent w packages url)"
      using cfp_not_2xx [OF parse g] by blast
    have b: "200 \<le> status_code r0 \<and> status_code r0 < 300 \<longrightarrow>
               (create_from_packages w packages ln d cr li = None \<longleftrightarrow>
                  wait_for_download (build_request_sent w packages url) (body_text r0) 0 = None) \<and>
               (\<forall>res w'. create_from_packages w packages ln d cr li = Some (res, w') \<longrightarrow>
                  (\<exists>rest. trace w' = trace w @ [FsOpen packages, HttpGet url] @ rest))"
      using cfp_returns_iff [OF parse g] create_from_packages_requests_url [OF parse, of ln d cr li]
      unfolding url by blast
    show ?thesis
      by (rule conjI [OF a b])
  qed
  from parse down answered show ?thesis
    by blast
qed

lemma flag_zero: "str_int 0 = ''0''"
  by code_simp

theorem packages_joined_into_request_url_witness:
  "parse_packages_json (remote_world 404 0 None) ''packages.json''
     = (Inr (''x86_64'', ''py38'', ''a&b&c'', IsInt 0),
        emit (FsOpen ''packages.json'') (remote_world 404 0 None)) \<and>
   create_from_packages (remote_world 404 0 None) ''packages.json''
       demo_name demo_description demo_runtimes PNone
     = Some (Inl (LamblayerCreateLayerError
          ''Something went wrong..., Please contact with higuchi@adansons.co.jp''),
        build_request_sent (remote_world 404 0 None) ''packages.json''
          ''https://layerzip.higuchi.work/x86_64/py38/a&b&c?no-deps=0'') \<and>
   trace (build_request_sent (remote_world 404 0 None) ''packages.json''
            ''https://layerzip.higuchi.work/x86_64/py38/a&b&c?no-deps=0'')
     = [FsOpen ''packages.json'',
        HttpGet ''https://layerzip.higuchi.work/x86_64/py38/a&b&c?no-deps=0''] \<and>
   create_from_packages stalled_world ''packages.json''
       demo_name demo_description demo_runtimes PNone = None"
proof -
  let ?kvs = "[(''Arch'', PStr ''x86_64''), (''Runtime'', PStr ''py38''),
        (''Packages'', PList [PStr ''a'', PStr ''b'', PStr ''c''])]"
  let ?url = "''https://layerzip.higuchi.work/x86_64/py38/a&b&c?no-deps=0''"
  let ?refused = "\<lparr>status_code = 404, body_text = presigned_url,
       headers_get = (\<lambda>h. None) :: string \<Rightarrow> string option\<rparr>"
  let ?first = "\<lparr>status_code = 200, body_text = presigned_url,
       headers_get = (\<lambda>h. None) :: string \<Rightarrow> string option\<rparr>"
  have cfg_file: "read_file (filesys W) (workdir W) ''packages.json'' = Inr (JsonDoc (PDict ?kvs))"
    if "filesys W = demo_fs" "workdir W = [''work'']" for W
    using that by (simp add: read_file_def lookup_def resolve_def node_at_def start_dir_def demo_fs_def)
  have fields: "map_of ?kvs ''Arch'' = Some (PStr ''x86_64'')"
    "map_of ?kvs ''Runtime'' = Some (PStr ''py38'')"
    "map_of ?kvs ''Packages'' = Some (PList (map PStr [''a'', ''b'', ''c'']))"
    "as_int (case map_of ?kvs ''No_deps'' of None \<Rightarrow> PInt 0 | Some v \<Rightarrow> v) = Some (IsInt 0)"
    by simp_all
  have url: "?url = ''https://layerzip.higuchi.work/'' @ ''x86_64'' @ ''/'' @ ''py38'' @ ''/''
                 @ intercalate ''&'' [''a'', ''b'', ''c''] @ ''?no-deps='' @ format_flag (IsInt 0)"
    by (simp add: flag_zero)
  have f1: "read_file (filesys (remote_world 404 0 None)) (workdir (remote_world 404 0 None))
      ''packages.json'' = Inr (JsonDoc (PDict ?kvs))"
    by (rule cfg_file) (simp_all add: remote_world_def demo_world_def)
  have f2: "read_file (filesys stalled_world) (workdir stalled_world)
      ''packages.json'' = Inr (JsonDoc (PDict ?kvs))"
    by (rule cfg_file) (simp_all add: stalled_world_def demo_world_def)
  note refused = packages_joined_into_request_url
    [OF f1 fields url, of demo_name demo_description demo_runtimes PNone]
  note stalled = packages_joined_into_request_url
    [OF f2 fields url, of demo_name demo_description demo_runtimes PNone]
  have n1: "network (remote_world 404 0 None) (requests_sent (remote_world 404 0 None)) ?url
      = Some ?refused"
    by (simp add: remote_world_def demo_world_def)
  have n2: "network stalled_world (requests_sent stalled_world) ?url = Some ?first"
    by (simp add: stalled_world_def demo_world_def)
  have never: "\<forall>k. \<exists>r. network (build_request_sent stalled_world ''packages.json'' ?url)
        (requests_sent (build_request_sent stalled_world ''packages.json'' ?url) + k) presigned_url
      = Some r \<and> status_code r \<noteq> 200"
    by (simp add: build_request_sent_def stalled_world_def demo_world_def)
  have a: "parse_packages_json (remote_world 404 0 None) ''packages.json''
     = (Inr (''x86_64'', ''py38'', ''a&b&c'', IsInt 0),
        emit (FsOpen ''packages.json'') (remote_world 404 0 None))"
    using refused [THEN conjunct1] by simp
  have b: "create_from_packages (remote_world 404 0 None) ''packages.json''
       demo_name demo_description demo_runtimes PNone
     = Some (Inl (LamblayerCreateLayerError
          ''Something went wrong..., Please contact with higuchi@adansons.co.jp''),
        build_request_sent (remote_world 404 0 None) ''packages.json'' ?url)"
    using refused [THEN conjunct2, THEN conjunct2, THEN spec, of ?refused] n1 by simp
  have c: "trace (build_request_sent (remote_world 404 0 None) ''packages.json'' ?url)
     = [FsOpen ''packages.json'', HttpGet ?url]"
    by (simp add: build_request_sent_def remote_world_def demo_world_def)
  have d: "create_from_packages stalled_world ''packages.json''
       demo_name demo_description demo_runtimes PNone = None"
    using stalled [THEN conjunct2, THEN conjunct2, THEN spec, of ?first] n2
      wait_diverges [OF never, of 0] by simp
  show ?thesis
    by (rule conjI [OF a conjI [OF b conjI [OF c d]]])
qed

subsection \<open>Bucket and key of the pre-signed URL\<close>

lemma partition_at_char:
  "c \<notin> set a \<Longrightarrow> partition_at [c] (a @ c # b) = Some (a, b)"
  by (induction a) auto

lemma partition_at_absent:
  "sep \<noteq> [] \<Longrightarrow> hd sep \<notin> set s \<Longrightarrow> partition_at sep s = None"
  by (induction s) (auto simp: prefix_def neq_Nil_conv)

lemma py_split_absent:
  "sep \<noteq> [] \<Longrightarrow> hd sep \<notin> set s \<Longrightarrow> py_split sep maxsplit s = [s]"
  by (subst py_split.simps) (simp add: partition_at_absent)

lemma py_split_char:
  "c \<notin> set a \<Longrightarrow> maxsplit \<noteq> Some 0 \<Longrightarrow>
     py_split [c] maxsplit (a @ c # b) = a # py_split [c] (map_option (\<lambda>n. n - 1) maxsplit) b"
  by (subst py_split.simps) (simp add: partition_at_char)

lemma item_last_Cons: "xs \<noteq> [] \<Longrightarrow> item_last (x # xs) = item_last xs"
  by (cases xs) auto

lemma s3_key_of_shape:
  assumes "CHR ''/'' \<notin> set a" "CHR ''/'' \<notin> set b" "CHR ''/'' \<notin> set c"
  shows "s3_key_of (a @ ''/'' @ b @ ''/'' @ c @ ''/'' @ key) = Inr key"
proof -
  have "py_split ''/'' (Some 3) (a @ ''/'' @ b @ ''/'' @ c @ ''/'' @ key) = [a, b, c, key]"
    using py_split_char [OF assms(1), of "Some 3" "b @ ''/'' @ c @ ''/'' @ key"]
      py_split_char [OF assms(2), of "Some 2" "c @ ''/'' @ key"]
      py_split_char [OF assms(3), of "Some 1" "key"]
    by (simp add: py_split.simps [of _ "Some 0"])
  then show ?thesis
    by (simp add: s3_key_of_def)
qed

lemma partition_at_double_sep:
  "CHR ''/'' \<notin> set a \<Longrightarrow> partition_at ''//'' (a @ ''//'' @ b) = Some (a, b)"
  by (induction a) auto

lemma s3_bucket_of_scheme:
  assumes "CHR ''.'' \<notin> set scheme" "CHR ''/'' \<notin> set scheme"
    and "CHR ''.'' \<notin> set bucket" "CHR ''/'' \<notin> set bucket"
  shows "s3_bucket_of (scheme @ ''://'' @ bucket @ ''.'' @ rest) = Inr bucket"
proof -
  have "CHR ''.'' \<notin> set (scheme @ ''://'' @ bucket)"
    using assms(1,3) by simp
  from py_split_char [OF this, of None rest]
  have first: "item_first (py_split ''.'' None (scheme @ ''://'' @ bucket @ ''.'' @ rest))
      = Inr (scheme @ ''://'' @ bucket)"
    by simp
  have "CHR ''/'' \<notin> set (scheme @ '':'')"
    using assms(2) by simp
  from partition_at_double_sep [OF this, of bucket]
  have "partition_at ''//'' (scheme @ ''://'' @ bucket) = Some (scheme @ '':'', bucket)"
    by simp
  then have "py_split ''//'' None (scheme @ ''://'' @ bucket) = [scheme @ '':'', bucket]"
    using py_split_absent [of "''//''" bucket None] assms(4)
    by (subst py_split.simps) simp
  with first show ?thesis
    by (simp add: s3_bucket_of_def)
qed

lemma local_bucket: "s3_bucket_of local_url = Inr ''localhost:9000/layers/demo''"
  by (simp add: s3_bucket_of_def local_url_def py_split.simps)

lemma local_key: "s3_key_of local_url = Inr ''layers/demo.zip?X-Amz-Expires=300''"
  by (simp add: s3_key_of_def local_url_def py_split.simps)

lemma local_request:
  "requests_get (emit (FsOpen ''packages.json'') local_world)
       (request_url ''x86_64'' ''py38'' ''a&b&c'' (IsInt 0))
     = (Inr \<lparr>status_code = 200, body_text = local_url, headers_get = (\<lambda>h. None)\<rparr>,
        build_request_sent local_world ''packages.json''
          (request_url ''x86_64'' ''py38'' ''a&b&c'' (IsInt 0)))"
  by (simp add: first_request local_world_def demo_world_def)

lemma local_wait:
  "wait_for_download (build_request_sent local_world ''packages.json'' url) local_url 0
     = Some (Inr \<lparr>status_code = 200, body_text = [],
                  headers_get = (\<lambda>h. if h = ''Content-Length'' then Some ''300'' else None)\<rparr>,
             polled (build_request_sent local_world ''packages.json'' url) local_url 0 0)"
  by (rule wait_complete)
     (simp_all add: still_building_def poll_outcome_def build_request_sent_def
        local_world_def demo_world_def)

text \<open>
  C7, as the specification states it, for every pre-signed URL string: the build
  service of \<open>local_world\<close> answers with the URL
  \<open>http://localhost:9000/layers/demo.zip?X-Amz-Expires=300\<close>, whose host name has no
  dot. The first dot of the URL is the one of \<open>demo.zip\<close>, so the bucket passed to the
  publish call is \<open>localhost:9000/layers/demo\<close>, which is not a segment of the host.
\<close>

theorem bucket_of_dotless_host:
  "create_from_packages local_world ''packages.json''
       demo_name demo_description demo_runtimes PNone
     = Some (Inr (),
         emit (Publish \<lparr>LayerName = demo_name, Description = demo_description,
                 Content = S3Object ''localhost:9000/layers/demo''
                             ''layers/demo.zip?X-Amz-Expires=300'',
                 CompatibleRuntimes = demo_runtimes, LicenseInfo = PNone\<rparr>)
           (polled (build_request_sent local_world ''packages.json''
                      ''https://layerzip.higuchi.work/x86_64/py38/a&b&c?no-deps=0'')
              ''http://localhost:9000/layers/demo.zip?X-Amz-Expires=300'' 0 0))"
proof -
  let ?sent = "build_request_sent local_world ''packages.json''
      (request_url ''x86_64'' ''py38'' ''a&b&c'' (IsInt 0))"
  have parse: "parse_packages_json local_world ''packages.json''
      = (Inr (''x86_64'', ''py38'', ''a&b&c'', IsInt 0), emit (FsOpen ''packages.json'') local_world)"
    by (rule demo_parse) (simp_all add: local_world_def demo_world_def)
  have "layer_service (polled ?sent local_url 0 0) = (\<lambda>req. Some ''arn:aws:lambda:layer:demo:1'')"
    by (simp add: polled_def build_request_sent_def local_world_def demo_world_def emit_def)
  then have "create_from_packages local_world ''packages.json''
       demo_name demo_description demo_runtimes PNone
     = Some (Inr (),
         emit (Publish \<lparr>LayerName = demo_name, Description = demo_description,
                 Content = S3Object ''localhost:9000/layers/demo''
                             ''layers/demo.zip?X-Amz-Expires=300'',
                 CompatibleRuntimes = demo_runtimes, LicenseInfo = PNone\<rparr>)
           (polled ?sent local_url 0 0))"
    by (subst cfp_polling [OF parse local_request])
       (simp_all add: local_wait local_bucket local_key int_150 publish_layer_version_def)
  then show ?thesis
    by (simp add: url_demo local_url_def)
qed

text \<open>
  C7, amended: for a pre-signed URL \<open>scheme://B.rest/key\<close>, where neither the scheme
  nor \<open>B\<close> has a dot or a slash and \<open>rest\<close> has no slash (the host \<open>B.rest\<close> has a
  dot, and \<open>B\<close> is what stands before it), the splits of the code give the bucket
  \<open>B\<close> and the key \<open>key\<close>, which may itself contain slashes; and a run of \<open>create\<close>
  whose build request is answered with that URL, and whose polls reach a response
  with a \<open>Content-Length\<close> of at least 200, ends with the publish call, to which it
  passes \<open>S3Object B key\<close>. Whatever the scheme and the host, the key is everything
  after the third slash of the URL.
\<close>

theorem bucket_and_key_of_url:
  "(CHR ''.'' \<notin> set scheme \<and> CHR ''/'' \<notin> set scheme \<and>
    CHR ''.'' \<notin> set bucket \<and> CHR ''/'' \<notin> set bucket \<and> CHR ''/'' \<notin> set rest \<and>
    url = scheme @ ''://'' @ bucket @ ''.'' @ rest @ ''/'' @ key \<longrightarrow>
      s3_bucket_of url = Inr bucket \<and>
      s3_key_of url = Inr key \<and>
      (parse_packages_json w p = (Inr (arch, runtime, ps, nd), w1) \<and>
       requests_get w1 (request_url arch runtime ps nd) = (Inr r0, w2) \<and>
       200 \<le> status_code r0 \<and> status_code r0 < 300 \<and> body_text r0 = url \<and>
       wait_for_download w2 url 0 = Some (Inr r, w3) \<and>
       py_int (headers_get r ''Content-Length'') = Inr n \<and> 200 \<le> n \<longrightarrow>
         create_from_packages w p ln d cr li
           = Some (case layer_service w3
                          \<lparr>LayerName = ln, Description = d, Content = S3Object bucket key,
                           CompatibleRuntimes = cr, LicenseInfo = li\<rparr> of
                     None \<Rightarrow> Inl ClientError
                   | Some layer_version_arn \<Rightarrow> Inr (),
                   emit (Publish \<lparr>LayerName = ln, Description = d,
                           Content = S3Object bucket key,
                           CompatibleRuntimes = cr, LicenseInfo = li\<rparr>) w3))) \<and>
   (CHR ''/'' \<notin> set a \<and> CHR ''/'' \<notin> set b \<and> CHR ''/'' \<notin> set c \<longrightarrow>
      s3_key_of (a @ ''/'' @ b @ ''/'' @ c @ ''/'' @ key) = Inr key)"
proof -
  have shape: "s3_bucket_of url = Inr bucket \<and> s3_key_of url = Inr key"
    if h: "CHR ''.'' \<notin> set scheme" "CHR ''/'' \<notin> set scheme"
      "CHR ''.'' \<notin> set bucket" "CHR ''/'' \<notin> set bucket" "CHR ''/'' \<notin> set rest"
      "url = scheme @ ''://'' @ bucket @ ''.'' @ rest @ ''/'' @ key"
  proof -
    have "s3_bucket_of (scheme @ ''://'' @ bucket @ ''.'' @ (rest @ ''/'' @ key)) = Inr bucket"
      using h(1-4) by (rule s3_bucket_of_scheme)
    moreover have "s3_key_of ((scheme @ '':'') @ ''/'' @ [] @ ''/'' @ (bucket @ ''.'' @ rest) @ ''/'' @ key)
        = Inr key"
      using h(2,4,5) by (intro s3_key_of_shape) simp_all
    ultimately show ?thesis
      using h(6) by simp
  qed
  have run: "create_from_packages w p ln d cr li
           = Some (case layer_service w3
                          \<lparr>LayerName = ln, Description = d, Content = S3Object bucket key,
                           CompatibleRuntimes = cr, LicenseInfo = li\<rparr> of
                     None \<Rightarrow> Inl ClientError
                   | Some layer_version_arn \<Rightarrow> Inr (),
                   emit (Publish \<lparr>LayerName = ln, Description = d,
                           Content = S3Object bucket key,
                           CompatibleRuntimes = cr, LicenseInfo = li\<rparr>) w3)"
    if split: "s3_bucket_of url = Inr bucket" "s3_key_of url = Inr key"
      and parse: "parse_packages_json w p = (Inr (arch, runtime, ps, nd), w1)"
      and get: "requests_get w1 (request_url arch runtime ps nd) = (Inr r0, w2)"
      and ok: "200 \<le> status_code r0 \<and> status_code r0 < 300"
      and body: "body_text r0 = url"
      and wait: "wait_for_download w2 url 0 = Some (Inr r, w3)"
      and len: "py_int (headers_get r ''Content-Length'') = Inr n" "200 \<le> n"
    using split body wait len
    by (subst cfp_polling [OF parse get ok])
       (simp add: publish_layer_version_def split: option.splits)
  have first: "CHR ''.'' \<notin> set scheme \<and> CHR ''/'' \<notin> set scheme \<and>
    CHR ''.'' \<notin> set bucket \<and> CHR ''/'' \<notin> set bucket \<and> CHR ''/'' \<notin> set rest \<and>
    url = scheme @ ''://'' @ bucket @ ''.'' @ rest @ ''/'' @ key \<longrightarrow>
      s3_bucket_of url = Inr bucket \<and>
      s3_key_of url = Inr key \<and>
      (parse_packages_json w p = (Inr (arch, runtime, ps, nd), w1) \<and>
       requests_get w1 (request_url arch runtime ps nd) = (Inr r0, w2) \<and>
       200 \<le> status_code r0 \<and> status_code r0 < 300 \<and> body_text r0 = url \<and>
       wait_for_download w2 url 0 = Some (Inr r, w3) \<and>
       py_int (headers_get r ''Content-Length'') = Inr n \<and> 200 \<le> n \<longrightarrow>
         create_from_packages w p ln d cr li
           = Some (case layer_service w3
                          \<lparr>LayerName = ln, Description = d, Content = S3Object bucket key,
                           CompatibleRuntimes = cr, LicenseInfo = li\<rparr> of
                     None \<Rightarrow> Inl ClientError
                   | Some layer_version_arn \<Rightarrow> Inr (),
                   emit (Publish \<lparr>LayerName = ln, Description = d,
                           Content = S3Object bucket key,
                           CompatibleRuntimes = cr, LicenseInfo = li\<rparr>) w3))"
  proof
    assume h: "CHR ''.'' \<notin> set scheme \<and> CHR ''/'' \<notin> set scheme \<and>
      CHR ''.'' \<notin> set bucket \<and> CHR ''/'' \<notin> set bucket \<and> CHR ''/'' \<notin> set rest \<and>
      url = scheme @ ''://'' @ bucket @ ''.'' @ rest @ ''/'' @ key"
    then have s: "s3_bucket_of url = Inr bucket \<and> s3_key_of url = Inr key"
      by (intro shape) simp_all
    from run [OF s [THEN conjunct1] s [THEN conjunct2]]
    have "parse_packages_json w p = (Inr (arch, runtime, ps, nd), w1) \<and>
       requests_get w1 (request_url arch runtime ps nd) = (Inr r0, w2) \<and>
       200 \<le> status_code r0 \<and> status_code r0 < 300 \<and> body_text r0 = url \<and>
       wait_for_download w2 url 0 = Some (Inr r, w3) \<and>
       py_int (headers_get r ''Content-Length'') = Inr n \<and> 200 \<le> n \<longrightarrow>
         create_from_packages w p ln d cr li
           = Some (case layer_service w3
                          \<lparr>LayerName = ln, Description = d, Content = S3Object bucket key,
                           CompatibleRuntimes = cr, LicenseInfo = li\<rparr> of
                     None \<Rightarrow> Inl ClientError
                   | Some layer_version_arn \<Rightarrow> Inr (),
                   emit (Publish \<lparr>LayerName = ln, Description = d,
                           Content = S3Object bucket key,
                           CompatibleRuntimes = cr, LicenseInfo = li\<rparr>) w3)"
      by blast
    with s show "s3_bucket_of url = Inr bucket \<and>
      s3_key_of url = Inr key \<and>
      (parse_packages_json w p = (Inr (arch, runtime, ps, nd), w1) \<and>
       requests_get w1 (request_url arch runtime ps nd) = (Inr r0, w2) \<and>
       200 \<le> status_code r0 \<and> status_code r0 < 300 \<and> body_text r0 = url \<and>
       wait_for_download w2 url 0 = Some (Inr r, w3) \<and>
       py_int (headers_get r ''Content-Length'') = Inr n \<and> 200 \<le> n \<longrightarrow>
         create_from_packages w p ln d cr li
           = Some (case layer_service w3
                          \<lparr>LayerName = ln, Description = d, Content = S3Object bucket key,
                           CompatibleRuntimes = cr, LicenseInfo = li\<rparr> of
                     None \<Rightarrow> Inl ClientError
                   | Some layer_version_arn \<Rightarrow> Inr (),
                   emit (Publish \<lparr>LayerName = ln, Description = d,
                           Content = S3Object bucket key,
                           CompatibleRuntimes = cr, LicenseInfo = li\<rparr>) w3))"
      by blast
  qed
  have third: "CHR ''/'' \<notin> set a \<and> CHR ''/'' \<notin> set b \<and> CHR ''/'' \<notin> set c \<longrightarrow>
      s3_key_of (a @ ''/'' @ b @ ''/'' @ c @ ''/'' @ key) = Inr key"
    using s3_key_of_shape by blast
  show ?thesis
    by (rule conjI [OF first third])
qed

theorem bucket_and_key_of_url_witness:
  "s3_bucket_of ''https://layerzip-bucket.s3.amazonaws.com/layers/demo.zip?X-Amz-Expires=300''
     = Inr ''layerzip-bucket'' \<and>
   s3_key_of ''https://layerzip-bucket.s3.amazonaws.com/layers/demo.zip?X-Amz-Expires=300''
     = Inr ''layers/demo.zip?X-Amz-Expires=300'' \<and>
   create_from_packages (remote_world 200 2 (Some ''300'')) ''packages.json''
       demo_name demo_description demo_runtimes PNone
     = Some (Inr (),
         emit (Publish \<lparr>LayerName = demo_name, Description = demo_description,
                 Content = S3Object ''layerzip-bucket'' ''layers/demo.zip?X-Amz-Expires=300'',
                 CompatibleRuntimes = demo_runtimes, LicenseInfo = PNone\<rparr>)
           (polled (sent_world 200 2 (Some ''300''))
              ''https://layerzip-bucket.s3.amazonaws.com/layers/demo.zip?X-Amz-Expires=300'' 0 2)) \<and>
   s3_key_of ''s3://bucket/layers/demo.zip?X-Amz-Expires=300''
     = Inr ''layers/demo.zip?X-Amz-Expires=300''"
proof -
  let ?url = "''https://layerzip-bucket.s3.amazonaws.com/layers/demo.zip?X-Amz-Expires=300''"
  let ?first = "\<lparr>status_code = 200, body_text = presigned_url,
       headers_get = (\<lambda>h. None) :: string \<Rightarrow> string option\<rparr>"
  let ?ready = "\<lparr>status_code = 200, body_text = [],
       headers_get = (\<lambda>h. if h = ''Content-Length'' then Some ''300'' else None)\<rparr>"
  let ?w3 = "polled (sent_world 200 2 (Some ''300'')) ?url 0 2"
  note published = bucket_and_key_of_url
    [where scheme = "''https''" and bucket = "''layerzip-bucket''" and rest = "''s3.amazonaws.com''"
       and key = "''layers/demo.zip?X-Amz-Expires=300''" and url = ?url
       and w = "remote_world 200 2 (Some ''300'')" and p = "''packages.json''"
       and arch = "''x86_64''" and runtime = "''py38''" and ps = "''a&b&c''" and nd = "IsInt 0"
       and ?w1.0 = "emit (FsOpen ''packages.json'') (remote_world 200 2 (Some ''300''))"
       and ?r0.0 = ?first and ?w2.0 = "sent_world 200 2 (Some ''300'')"
       and r = ?ready and ?w3.0 = ?w3 and n = 300
       and ln = demo_name and d = demo_description and cr = demo_runtimes and li = PNone
       and a = "''s3:''" and b = "[]" and c = "''bucket''"]
  have shape: "CHR ''.'' \<notin> set ''https'' \<and> CHR ''/'' \<notin> set ''https'' \<and>
    CHR ''.'' \<notin> set ''layerzip-bucket'' \<and> CHR ''/'' \<notin> set ''layerzip-bucket'' \<and>
    CHR ''/'' \<notin> set ''s3.amazonaws.com'' \<and>
    ?url = ''https'' @ ''://'' @ ''layerzip-bucket'' @ ''.'' @ ''s3.amazonaws.com'' @ ''/''
             @ ''layers/demo.zip?X-Amz-Expires=300''"
    by simp
  have hyps: "parse_packages_json (remote_world 200 2 (Some ''300'')) ''packages.json''
        = (Inr (''x86_64'', ''py38'', ''a&b&c'', IsInt 0),
           emit (FsOpen ''packages.json'') (remote_world 200 2 (Some ''300''))) \<and>
      requests_get (emit (FsOpen ''packages.json'') (remote_world 200 2 (Some ''300'')))
          (request_url ''x86_64'' ''py38'' ''a&b&c'' (IsInt 0))
        = (Inr ?first, sent_world 200 2 (Some ''300'')) \<and>
      200 \<le> status_code ?first \<and> status_code ?first < 300 \<and> body_text ?first = ?url \<and>
      wait_for_download (sent_world 200 2 (Some ''300'')) ?url 0 = Some (Inr ?ready, ?w3) \<and>
      py_int (headers_get ?ready ''Content-Length'') = Inr 300 \<and> (200 :: int) \<le> 300"
    using remote_wait [of 200 2 "Some ''300''"]
    by (simp add: remote_parse remote_get int_150 presigned_url_def)
  have service: "layer_service ?w3 = (\<lambda>req. Some ''arn:aws:lambda:layer:demo:1'')"
    by (simp add: polled_def sent_world_def remote_world_def demo_world_def emit_def)
  note holds = published [THEN conjunct1, THEN mp, OF shape]
  have a: "s3_bucket_of ?url = Inr ''layerzip-bucket''"
    by (rule holds [THEN conjunct1])
  have b: "s3_key_of ?url = Inr ''layers/demo.zip?X-Amz-Expires=300''"
    by (rule holds [THEN conjunct2, THEN conjunct1])
  have c: "create_from_packages (remote_world 200 2 (Some ''300'')) ''packages.json''
       demo_name demo_description demo_runtimes PNone
     = Some (Inr (),
         emit (Publish \<lparr>LayerName = demo_name, Description = demo_description,
                 Content = S3Object ''layerzip-bucket'' ''layers/demo.zip?X-Amz-Expires=300'',
                 CompatibleRuntimes = demo_runtimes, LicenseInfo = PNone\<rparr>) ?w3)"
    using holds [THEN conjunct2, THEN conjunct2, THEN mp, OF hyps] service by simp
  have d: "s3_key_of ''s3://bucket/layers/demo.zip?X-Amz-Expires=300''
     = Inr ''layers/demo.zip?X-Amz-Expires=300''"
    using published [THEN conjunct2] by simp
  show ?thesis
    by (rule conjI [OF a conjI [OF b conjI [OF c d]]])
qed

subsection \<open>Paths of the scratch directory\<close>



lemma components_no_sep: "CHR ''/'' \<notin> set s \<Longrightarrow> components s = [s]"
  by (induction s) auto






lemma hexdigest_name:
  assumes "is_hexdigest t"
  shows "t \<noteq> []" "CHR ''/'' \<notin> set t" "t \<noteq> ''.''" "t \<noteq> ''..''" "hd t \<noteq> CHR ''/''"
proof -
  from assms have len: "length t = 32" and all: "\<forall>c\<in>set t. c \<in> set ''0123456789abcdef''"
    by (auto simp: is_hexdigest_def list_all_iff)
  from len show "t \<noteq> []" "t \<noteq> ''.''" "t \<noteq> ''..''"
    by auto
  from all show "CHR ''/'' \<notin> set t"
    by auto
  with \<open>t \<noteq> []\<close> show "hd t \<noteq> CHR ''/''"
    by (cases t) auto
qed

















lemma walk_name:
  "node_at fs cur = Some Dir \<Longrightarrow> c \<noteq> [] \<Longrightarrow> c \<noteq> ''.'' \<Longrightarrow> c \<noteq> ''..'' \<Longrightarrow>
     walk fs cur (c # cs) = walk fs (cur @ [c]) cs"
  by simp



lemma remove_tree_gone: "(p, n) \<in> set (remove_tree fs d) \<Longrightarrow> \<not> prefix d p"
  by (auto simp: remove_tree_def)

subsection \<open>The archiver, step by step\<close>













subsection \<open>The layout of the archive\<close>



lemma world_steps:
  "workdir (snd (copytree w a b)) = workdir w"
  "timestamp_hash (snd (copytree w a b)) = timestamp_hash w"
  "workdir (snd (make_archive w a b)) = workdir w"
  "timestamp_hash (snd (make_archive w a b)) = timestamp_hash w"
  "workdir (snd (open_read w a)) = workdir w"
  "timestamp_hash (snd (open_read w a)) = timestamp_hash w"
  "filesys (snd (open_read w a)) = filesys w"
  by (simp_all add: copytree_def make_archive_def open_read_def emit_def split: prod.splits)





lemma demo_hash: "is_hexdigest (timestamp_hash demo_world)"
  by code_simp


subsection \<open>The scratch directory after the call\<close>

lemma resolve_name:
  assumes "is_hexdigest t" "resolve fs cwd t = Inr p"
  shows "p = cwd @ [t]"
proof -
  note n = hexdigest_name [OF assms(1)]
  have "components t = [t]" "start_dir cwd t = cwd"
    using n by (simp_all add: components_no_sep start_dir_def)
  with assms(2) n show ?thesis
    by (auto simp: resolve_def split: option.splits node.splits)
qed

lemma rmtree_fresh:
  assumes "is_hexdigest t" "shutil_rmtree fs cwd t = Inr fs'"
  shows "fresh fs' (cwd @ [t])"
proof -
  from assms(2) obtain p where "resolve fs cwd t = Inr p" "fs' = remove_tree fs p"
    by (auto simp: shutil_rmtree_def lookup_def split: sum.splits option.splits if_splits)
  with resolve_name [OF assms(1)] show ?thesis
    by (auto simp: fresh_def remove_tree_def list_all_iff)
qed

text \<open>
  C1, as the specification states it: the scratch directory is removed on every exit
  path. In \<open>locked_world\<close> the source tree \<open>locked\<close> holds a file that cannot be
  read: \<open>shutil.copytree\<close> creates the scratch directory, copies the other file and
  raises \<open>shutil.Error\<close>; \<open>_create_ziparchive\<close> ends with that exception, and the
  scratch directory, which did not exist before the call, exists after it.
\<close>

theorem scratch_left_behind:
  "node_at (filesys locked_world) [''work'', ''0cc175b9c0f1b6a831c399e269772661''] = None \<and>
   fst (create_ziparchive locked_world ''locked'' ''python'' []) = Inl shutil_Error \<and>
   node_at (filesys (snd (create_ziparchive locked_world ''locked'' ''python'' [])))
     [''work'', ''0cc175b9c0f1b6a831c399e269772661''] = Some Dir \<and>
   node_at (filesys (snd (create_ziparchive locked_world ''locked'' ''python'' [])))
     [''work'', ''0cc175b9c0f1b6a831c399e269772661'', ''rawlayer'', ''python'', ''a.py'']
       = Some (File (Raw ''print''))"
  by code_simp

text \<open>
  C1, amended: when the copy of the source tree, the creation of the zip file and the
  read of the zip file all succeed, nothing exists at or below the scratch directory
  when \<open>_create_ziparchive\<close> returns. When one of the three raises, the function ends
  with that exception and with the world as the failing call left it:
  \<open>shutil.rmtree\<close> is not reached.
\<close>

theorem scratch_removed_on_success:
  "is_hexdigest (timestamp_hash w) \<longrightarrow>
     (create_ziparchive w src wrap_dir1 wrap_dir2 = (Inr zipfile, w') \<longrightarrow>
        fresh (filesys w') (workdir w @ [timestamp_hash w])) \<and>
     (copytree w src (os_path_join (timestamp_hash w) [''rawlayer'', wrap_dir1, wrap_dir2])
        = (Some e, w1) \<longrightarrow>
        create_ziparchive w src wrap_dir1 wrap_dir2 = (Inl e, w1)) \<and>
     (copytree w src (os_path_join (timestamp_hash w) [''rawlayer'', wrap_dir1, wrap_dir2])
        = (None, w1) \<and>
      make_archive w1 (os_path_join (timestamp_hash w) [''ziplayer''])
        (os_path_join (timestamp_hash w) [''rawlayer'']) = (Some e, w2) \<longrightarrow>
        create_ziparchive w src wrap_dir1 wrap_dir2 = (Inl e, w2)) \<and>
     (copytree w src (os_path_join (timestamp_hash w) [''rawlayer'', wrap_dir1, wrap_dir2])
        = (None, w1) \<and>
      make_archive w1 (os_path_join (timestamp_hash w) [''ziplayer''])
        (os_path_join (timestamp_hash w) [''rawlayer'']) = (None, w2) \<and>
      open_read w2 (os_path_join (timestamp_hash w) [''ziplayer''] @ ''.zip'') = (Inl e, w3) \<longrightarrow>
        create_ziparchive w src wrap_dir1 wrap_dir2 = (Inl e, w3))"
proof
  assume t: "is_hexdigest (timestamp_hash w)"
  have ok: "create_ziparchive w src wrap_dir1 wrap_dir2 = (Inr zipfile, w') \<longrightarrow>
        fresh (filesys w') (workdir w @ [timestamp_hash w])"
  proof
    assume run: "create_ziparchive w src wrap_dir1 wrap_dir2 = (Inr zipfile, w')"
    let ?t = "timestamp_hash w"
    obtain r1 v1 where c: "copytree w src (os_path_join ?t [''rawlayer'', wrap_dir1, wrap_dir2]) = (r1, v1)"
      by (cases "copytree w src (os_path_join ?t [''rawlayer'', wrap_dir1, wrap_dir2])")
    obtain r2 v2 where m: "make_archive v1 (os_path_join ?t [''ziplayer'']) (os_path_join ?t [''rawlayer'']) = (r2, v2)"
      by (cases "make_archive v1 (os_path_join ?t [''ziplayer'']) (os_path_join ?t [''rawlayer''])")
    obtain r3 v3 where o: "open_read v2 (os_path_join ?t [''ziplayer''] @ ''.zip'') = (r3, v3)"
      by (cases "open_read v2 (os_path_join ?t [''ziplayer''] @ ''.zip'')")
    from world_steps(1) [of w src "os_path_join ?t [''rawlayer'', wrap_dir1, wrap_dir2]"] c
    have wd1: "workdir v1 = workdir w" by simp
    from world_steps(3) [of v1 "os_path_join ?t [''ziplayer'']" "os_path_join ?t [''rawlayer'']"] m wd1
    have wd2: "workdir v2 = workdir w" by simp
    from world_steps(5) [of v2 "os_path_join ?t [''ziplayer''] @ ''.zip''"] o wd2
    have wd3: "workdir v3 = workdir w" by simp
    from run c m o obtain fs' where
      del: "shutil_rmtree (filesys v3) (workdir v3) ?t = Inr fs'" and w': "filesys w' = fs'"
      by (auto simp: create_ziparchive_def Let_def rmtree_def emit_def
               split: option.splits sum.splits)
    from rmtree_fresh [OF t del] wd3 w' show "fresh (filesys w') (workdir w @ [timestamp_hash w])"
      by simp
  qed
  show "(create_ziparchive w src wrap_dir1 wrap_dir2 = (Inr zipfile, w') \<longrightarrow>
        fresh (filesys w') (workdir w @ [timestamp_hash w])) \<and>
     (copytree w src (os_path_join (timestamp_hash w) [''rawlayer'', wrap_dir1, wrap_dir2])
        = (Some e, w1) \<longrightarrow>
        create_ziparchive w src wrap_dir1 wrap_dir2 = (Inl e, w1)) \<and>
     (copytree w src (os_path_join (timestamp_hash w) [''rawlayer'', wrap_dir1, wrap_dir2])
        = (None, w1) \<and>
      make_archive w1 (os_path_join (timestamp_hash w) [''ziplayer''])
        (os_path_join (timestamp_hash w) [''rawlayer'']) = (Some e, w2) \<longrightarrow>
        create_ziparchive w src wrap_dir1 wrap_dir2 = (Inl e, w2)) \<and>
     (copytree w src (os_path_join (timestamp_hash w) [''rawlayer'', wrap_dir1, wrap_dir2])
        = (None, w1) \<and>
      make_archive w1 (os_path_join (timestamp_hash w) [''ziplayer''])
        (os_path_join (timestamp_hash w) [''rawlayer'']) = (None, w2) \<and>
      open_read w2 (os_path_join (timestamp_hash w) [''ziplayer''] @ ''.zip'') = (Inl e, w3) \<longrightarrow>
        create_ziparchive w src wrap_dir1 wrap_dir2 = (Inl e, w3))"
    using ok by (simp add: create_ziparchive_def Let_def)
qed

theorem scratch_removed_on_success_witness:
  "fresh (filesys (snd (create_ziparchive demo_world ''src'' ''python'' ''lib'')))
     [''work'', ''0cc175b9c0f1b6a831c399e269772661''] \<and>
   create_ziparchive locked_world ''locked'' ''python'' []
     = (Inl shutil_Error,
        snd (copytree locked_world ''locked''
               ''0cc175b9c0f1b6a831c399e269772661/rawlayer/python/''))"
proof -
  let ?z = "ZipData
         [([''python''], Dir),
          ([''python'', ''lib''], Dir),
          ([''python'', ''lib'', ''a.py''], File (Raw ''print'')),
          ([''python'', ''lib'', ''pkg''], Dir),
          ([''python'', ''lib'', ''pkg'', ''b.py''], File (Raw ''x''))]"
  have "fst (create_ziparchive demo_world ''src'' ''python'' ''lib'') = Inr ?z"
    by code_simp
  then have run: "create_ziparchive demo_world ''src'' ''python'' ''lib''
      = (Inr ?z, snd (create_ziparchive demo_world ''src'' ''python'' ''lib''))"
    by (metis prod.collapse)
  have names: "workdir demo_world @ [timestamp_hash demo_world]
      = [''work'', ''0cc175b9c0f1b6a831c399e269772661'']"
    "timestamp_hash locked_world = ''0cc175b9c0f1b6a831c399e269772661''"
    "os_path_join ''0cc175b9c0f1b6a831c399e269772661'' [''rawlayer'', ''python'', []]
      = ''0cc175b9c0f1b6a831c399e269772661/rawlayer/python/''"
    by code_simp+
  have locked_hash: "is_hexdigest (timestamp_hash locked_world)"
    by code_simp
  have "fst (copytree locked_world ''locked''
               ''0cc175b9c0f1b6a831c399e269772661/rawlayer/python/'') = Some shutil_Error"
    by code_simp
  then have fail: "copytree locked_world ''locked''
        (os_path_join (timestamp_hash locked_world) [''rawlayer'', ''python'', []])
      = (Some shutil_Error,
         snd (copytree locked_world ''locked''
               ''0cc175b9c0f1b6a831c399e269772661/rawlayer/python/''))"
    unfolding names by (metis prod.collapse)
  note ok = scratch_removed_on_success
    [where w = demo_world and src = "''src''" and ?wrap_dir1.0 = "''python''"
       and ?wrap_dir2.0 = "''lib''" and zipfile = ?z
       and w' = "snd (create_ziparchive demo_world ''src'' ''python'' ''lib'')",
     THEN mp, OF demo_hash, THEN conjunct1, THEN mp, OF run]
  note failed = scratch_removed_on_success
    [where w = locked_world and src = "''locked''" and ?wrap_dir1.0 = "''python''"
       and ?wrap_dir2.0 = "[]" and e = shutil_Error
       and ?w1.0 = "snd (copytree locked_world ''locked''
               ''0cc175b9c0f1b6a831c399e269772661/rawlayer/python/'')",
     THEN mp, OF locked_hash, THEN conjunct2, THEN conjunct1, THEN mp, OF fail]
  from ok names(1) failed show ?thesis
    by simp
qed

end
